theory Spec2Isabelle
  imports
    Complex_Main
    "HOL-Library.Char_ord"
    "HOL-Library.List_Lexorder"
    "HOL-Library.Product_Lexorder"
    "HOL-Library.Multiset"
begin

section \<open>Settings (utils/settings.py)\<close>

definition TITLE_TYPE :: string where
  "TITLE_TYPE = ''movie''"

definition TITLE_BASICS_YEAR_FROM :: int where
  "TITLE_BASICS_YEAR_FROM = 2015"

definition TITLE_BASICS_YEAR_TO :: int where
  "TITLE_BASICS_YEAR_TO = 2020"

section \<open>Tables\<close>

text \<open>
  A DataFrame is a list of rows, in row order.  A cell that pandas holds as NaN (the
  reserved token of the sources, or a column missing after a left merge) is \<open>None\<close>.
  Float columns are modelled by exact rationals.
\<close>

record title_basics_row =
  tconst :: string
  titleType :: "string option"
  startYear :: "int option"
  genres :: "string option"
  runtimeMinutes :: "int option"

text \<open>The columns of \<open>TITLE_BASICS_USED_COLUMNS\<close>, after the rows without a year are gone.\<close>

record clean_title_row =
  c_tconst :: string
  c_startYear :: int
  c_genres :: "string option"
  c_runtimeMinutes :: "int option"

record title_ratings_row =
  r_tconst :: string
  averageRating :: "rat option"
  numVotes :: "int option"

text \<open>
  The merged titles table.  Its \<open>genres\<close> column holds first a nullable string, then a
  list of strings, then one string; its \<open>runtimeMinutes\<close> column is cast at the end.
\<close>

record ('g, 'r) titles_data_row =
  t_tconst :: string
  t_startYear :: int
  t_genres :: 'g
  t_runtimeMinutes :: 'r
  t_averageRating :: "rat option"
  t_numVotes :: "int option"

record resume_row =
  y_startYear :: int
  y_genres :: string
  y_runtimeMinutes :: "rat option"
  y_averageRating :: "rat option"
  y_numVotes :: "int option"

section \<open>pandas and Python primitives used by the pipeline\<close>

text \<open>\<open>str.split(",")\<close>: one piece more than there are commas, empty pieces kept.\<close>

fun split_comma :: "string \<Rightarrow> string list" where
  "split_comma [] = [[]]"
| "split_comma (c # cs) =
     (if c = CHR '','' then [] # split_comma cs
      else (case split_comma cs of
              [] \<Rightarrow> [[c]]
            | w # ws \<Rightarrow> (c # w) # ws))"

text \<open>\<open>Series.between(left, right, inclusive=True)\<close>.\<close>

definition between :: "int \<Rightarrow> int \<Rightarrow> int \<Rightarrow> bool" where
  "between x left right = (left \<le> x \<and> x \<le> right)"

text \<open>
  \<open>DataFrame.merge(right, how="left", on=key)\<close>: the left rows in their order, each
  once per right row with the same key (in the right table's order), or once with the right
  columns missing when no right row has the key.
\<close>

definition merge_left ::
  "('a \<Rightarrow> 'k) \<Rightarrow> ('b \<Rightarrow> 'k) \<Rightarrow> 'a list \<Rightarrow> 'b list \<Rightarrow> ('a \<times> 'b option) list" where
  "merge_left kl kr ls rs =
     concat (map (\<lambda>l. case filter (\<lambda>r. kr r = kl l) rs of
                          [] \<Rightarrow> [(l, None)]
                        | ms \<Rightarrow> map (\<lambda>r. (l, Some r)) ms) ls)"

text \<open>
  \<open>DataFrame.explode\<close> of a list column: one row per element, the other cells repeated.
  The lists exploded here come from \<open>str.split\<close> and are never empty.
\<close>

definition explode :: "('a \<Rightarrow> 'x list) \<Rightarrow> ('a \<Rightarrow> 'x \<Rightarrow> 'b) \<Rightarrow> 'a list \<Rightarrow> 'b list" where
  "explode col put rows = concat (map (\<lambda>r. map (put r) (col r)) rows)"

text \<open>
  \<open>DataFrame.groupby(keys)\<close> with the default \<open>sort=True\<close>: the distinct keys in ascending
  order, each with its rows in their original order.
\<close>

definition groupby :: "('a \<Rightarrow> 'k::linorder) \<Rightarrow> 'a list \<Rightarrow> ('k \<times> 'a list) list" where
  "groupby key rows =
     map (\<lambda>k. (k, filter (\<lambda>r. key r = k) rows)) (sort (remdups (map key rows)))"

text \<open>The values of a column that are present (pandas skips NaN in its reductions).\<close>

definition dropna :: "'a option list \<Rightarrow> 'a list" where
  "dropna xs = List.map_filter id xs"

text \<open>\<open>"mean"\<close>: NaN when no value is present.\<close>

definition mean :: "rat option list \<Rightarrow> rat option" where
  "mean xs = (let vs = dropna xs in
              if vs = [] then None else Some (sum_list vs / of_nat (length vs)))"

text \<open>\<open>"sum"\<close> (with pandas' default \<open>min_count=0\<close>): the empty sum is 0.\<close>

definition sum_agg :: "int option list \<Rightarrow> int option" where
  "sum_agg xs = Some (sum_list (dropna xs))"

section \<open>process\_title\_basics\_df\<close>

definition movie_mask :: "title_basics_row \<Rightarrow> bool" where
  "movie_mask r = (titleType r = Some TITLE_TYPE)"

definition date_mask :: "title_basics_row \<Rightarrow> bool" where
  "date_mask r = (case startYear r of
                    None \<Rightarrow> False
                  | Some y \<Rightarrow> between y TITLE_BASICS_YEAR_FROM TITLE_BASICS_YEAR_TO)"

text \<open>
  The projection on \<open>TITLE_BASICS_USED_COLUMNS\<close>.  It is applied after the rows without a
  start year are dropped, so the year it reads is present.
\<close>

definition used_columns :: "title_basics_row \<Rightarrow> clean_title_row" where
  "used_columns r =
     \<lparr>c_tconst = tconst r, c_startYear = the (startYear r),
      c_genres = genres r, c_runtimeMinutes = runtimeMinutes r\<rparr>"

definition process_title_basics_df :: "title_basics_row list \<Rightarrow> clean_title_row list" where
  "process_title_basics_df title_basics_df =
     (let df = filter (\<lambda>r. startYear r \<noteq> None) title_basics_df
      in map used_columns (filter (\<lambda>r. movie_mask r \<and> date_mask r) df))"

section \<open>get\_title\_ratings\<close>

definition merged_titles ::
  "clean_title_row \<times> title_ratings_row option \<Rightarrow> (string option, int option) titles_data_row" where
  "merged_titles p =
     (case p of (c, m) \<Rightarrow>
        \<lparr>t_tconst = c_tconst c, t_startYear = c_startYear c, t_genres = c_genres c,
         t_runtimeMinutes = c_runtimeMinutes c,
         t_averageRating = (case m of None \<Rightarrow> None | Some r \<Rightarrow> averageRating r),
         t_numVotes = (case m of None \<Rightarrow> None | Some r \<Rightarrow> numVotes r)\<rparr>)"

text \<open>
  \<open>x.split(",")\<close> on the \<open>genres\<close> cell.  The rows with a NaN there are filtered out
  before, so the cell holds a string.
\<close>

definition split_genres ::
  "(string option, 'r) titles_data_row \<Rightarrow> (string list, 'r) titles_data_row" where
  "split_genres r =
     \<lparr>t_tconst = t_tconst r, t_startYear = t_startYear r,
      t_genres = (case t_genres r of None \<Rightarrow> [] | Some x \<Rightarrow> split_comma x),
      t_runtimeMinutes = t_runtimeMinutes r,
      t_averageRating = t_averageRating r, t_numVotes = t_numVotes r\<rparr>"

definition put_genre ::
  "(string list, 'r) titles_data_row \<Rightarrow> string \<Rightarrow> (string, 'r) titles_data_row" where
  "put_genre r g =
     \<lparr>t_tconst = t_tconst r, t_startYear = t_startYear r, t_genres = g,
      t_runtimeMinutes = t_runtimeMinutes r,
      t_averageRating = t_averageRating r, t_numVotes = t_numVotes r\<rparr>"

definition astype_float ::
  "(string, int option) titles_data_row \<Rightarrow> (string, rat option) titles_data_row" where
  "astype_float r =
     \<lparr>t_tconst = t_tconst r, t_startYear = t_startYear r, t_genres = t_genres r,
      t_runtimeMinutes = map_option of_int (t_runtimeMinutes r),
      t_averageRating = t_averageRating r, t_numVotes = t_numVotes r\<rparr>"

definition get_title_ratings ::
  "clean_title_row list \<Rightarrow> title_ratings_row list \<Rightarrow> (string, rat option) titles_data_row list" where
  "get_title_ratings clean_title_basics_df title_ratings_df =
     (let titles_data = map merged_titles (merge_left c_tconst r_tconst clean_title_basics_df title_ratings_df);
          titles_data = filter (\<lambda>r. t_genres r \<noteq> None) titles_data;
          titles_data = map split_genres titles_data;
          titles_data = explode t_genres put_genre titles_data
      in map astype_float titles_data)"

section \<open>get\_year\_genre\_resume\<close>

definition RESUME_GROUPED_BY :: "(string, rat option) titles_data_row \<Rightarrow> int \<times> string" where
  "RESUME_GROUPED_BY r = (t_startYear r, t_genres r)"

definition RESUME_AGG_FUNCTIONS_DICT ::
  "(int \<times> string) \<times> (string, rat option) titles_data_row list \<Rightarrow> resume_row" where
  "RESUME_AGG_FUNCTIONS_DICT g =
     (case g of (k, rows) \<Rightarrow>
        \<lparr>y_startYear = fst k, y_genres = snd k,
         y_runtimeMinutes = mean (map t_runtimeMinutes rows),
         y_averageRating = mean (map t_averageRating rows),
         y_numVotes = sum_agg (map t_numVotes rows)\<rparr>)"

definition get_year_genre_resume ::
  "(string, rat option) titles_data_row list \<Rightarrow> resume_row list" where
  "get_year_genre_resume titles_data_df =
     map RESUME_AGG_FUNCTIONS_DICT (groupby RESUME_GROUPED_BY titles_data_df)"

section \<open>get\_id2name\_dict and director\_id2name\<close>

record name_basics_row =
  nconst :: string
  primaryName :: string

datatype error = KeyError string | ValueError

text \<open>\<open>set_index("nconst").to_dict()["primaryName"]\<close>: a later row overwrites an earlier one.\<close>

definition get_id2name_dict :: "name_basics_row list \<Rightarrow> (string \<rightharpoonup> string)" where
  "get_id2name_dict name_basics_df =
     foldl (\<lambda>d r. d(nconst r \<mapsto> primaryName r)) Map.empty name_basics_df"

text \<open>
  What the aggregation hands to \<open>director_id2name\<close>: one id, or a \<open>numpy.ndarray\<close> of ids.
\<close>

datatype ids = Scalar string | Ndarray "string list"

text \<open>The \<open>for\<close> loop of \<open>director_id2name\<close>, with \<open>names\<close> as accumulator.\<close>

fun id2name_loop :: "string list \<Rightarrow> (string \<rightharpoonup> string) \<Rightarrow> string \<Rightarrow> error + string" where
  "id2name_loop [] id2name_dict names = Inr names"
| "id2name_loop (i # rest) id2name_dict names =
     (case id2name_dict i of
        None \<Rightarrow> Inl (KeyError i)
      | Some n \<Rightarrow> id2name_loop rest id2name_dict (names @ n @ ''; ''))"

definition endswith :: "string \<Rightarrow> string \<Rightarrow> bool" where
  "endswith s suffix =
     (length suffix \<le> length s \<and> drop (length s - length suffix) s = suffix)"

definition director_id2name :: "ids \<Rightarrow> (string \<rightharpoonup> string) \<Rightarrow> error + string" where
  "director_id2name x id2name_dict =
     (case x of
        Ndarray xs \<Rightarrow>
          (case id2name_loop xs id2name_dict [] of
             Inl e \<Rightarrow> Inl e
           | Inr names \<Rightarrow>
               Inr (if endswith names ''; '' then take (length names - 2) names else names))
      | Scalar i \<Rightarrow>
          (case id2name_dict i of
             None \<Rightarrow> Inl (KeyError i)
           | Some n \<Rightarrow> Inr ([] @ n)))"

section \<open>get\_crew\_data\_by\_group\<close>

record title_crew_row =
  w_tconst :: string
  directors :: "string option"
  writers :: "string option"

record ('g, 'd) crew_row =
  k_startYear :: int
  k_genres :: 'g
  k_directors :: 'd
  k_writers :: "string option"

definition merged_directors :: "clean_title_row \<times> title_crew_row option \<Rightarrow> string option" where
  "merged_directors p = (case snd p of None \<Rightarrow> None | Some w \<Rightarrow> directors w)"

definition merged_writers :: "clean_title_row \<times> title_crew_row option \<Rightarrow> string option" where
  "merged_writers p = (case snd p of None \<Rightarrow> None | Some w \<Rightarrow> writers w)"

definition TITLE_CREW_USED_COLUMNS ::
  "clean_title_row \<times> title_crew_row option \<Rightarrow> (string option, string option) crew_row" where
  "TITLE_CREW_USED_COLUMNS p =
     \<lparr>k_startYear = c_startYear (fst p), k_genres = c_genres (fst p),
      k_directors = merged_directors p, k_writers = merged_writers p\<rparr>"

text \<open>
  \<open>x.split(",")\<close> on a cell of \<open>genres\<close> or \<open>directors\<close>; both columns are free of
  NaN when it is applied.
\<close>

definition split_column :: "string option \<Rightarrow> string list" where
  "split_column x = (case x of None \<Rightarrow> [] | Some s \<Rightarrow> split_comma s)"

definition split_crew ::
  "(string option, string option) crew_row \<Rightarrow> (string list, string list) crew_row" where
  "split_crew r =
     \<lparr>k_startYear = k_startYear r, k_genres = split_column (k_genres r),
      k_directors = split_column (k_directors r), k_writers = k_writers r\<rparr>"

definition put_crew_genre ::
  "(string list, 'd) crew_row \<Rightarrow> string \<Rightarrow> (string, 'd) crew_row" where
  "put_crew_genre r g =
     \<lparr>k_startYear = k_startYear r, k_genres = g,
      k_directors = k_directors r, k_writers = k_writers r\<rparr>"

definition put_crew_director ::
  "('g, string list) crew_row \<Rightarrow> string \<Rightarrow> ('g, string) crew_row" where
  "put_crew_director r d =
     \<lparr>k_startYear = k_startYear r, k_genres = k_genres r,
      k_directors = d, k_writers = k_writers r\<rparr>"

text \<open>Lines 138 to 145: the merged table without its NaN rows, reduced to the used columns.\<close>

definition crew_merged ::
  "clean_title_row list \<Rightarrow> title_crew_row list \<Rightarrow> (string option, string option) crew_row list" where
  "crew_merged clean_title_basics_df title_crew_df =
     (let df = merge_left c_tconst w_tconst clean_title_basics_df title_crew_df;
          df = filter (\<lambda>p. c_genres (fst p) \<noteq> None) df;
          df = filter (\<lambda>p. merged_directors p \<noteq> None) df
      in map TITLE_CREW_USED_COLUMNS df)"

text \<open>Lines 148 to 151: both columns split, then \<open>genres\<close> exploded, then \<open>directors\<close>.\<close>

definition explode_crew ::
  "(string option, string option) crew_row list \<Rightarrow> (string, string) crew_row list" where
  "explode_crew df =
     (let df = map split_crew df;
          df = explode k_genres put_crew_genre df
      in explode k_directors put_crew_director df)"

text \<open>The rows of \<open>get_crew_data_by_group\<close> just before the three aggregations.\<close>

definition crew_exploded ::
  "clean_title_row list \<Rightarrow> title_crew_row list \<Rightarrow> (string, string) crew_row list" where
  "crew_exploded clean_title_basics_df title_crew_df =
     explode_crew (crew_merged clean_title_basics_df title_crew_df)"

text \<open>\<open>"nunique"\<close>: the number of distinct values that are present.\<close>

definition nunique :: "'a option list \<Rightarrow> nat" where
  "nunique xs = length (remdups (dropna xs))"

text \<open>
  \<open>Series.mode()\<close>: the values that occur most often, in ascending order.
\<close>

definition max_count :: "'a list \<Rightarrow> nat" where
  "max_count xs = foldr (\<lambda>x m. max (count_list xs x) m) xs 0"

definition mode :: "'a::linorder list \<Rightarrow> 'a list" where
  "mode xs = sort (filter (\<lambda>x. count_list xs x = max_count xs) (remdups xs))"

text \<open>
  The value an aggregating \<open>lambda x: x.mode()\<close> leaves in the cell of a group: the id
  itself when the mode is one value, the array of ids otherwise.
\<close>

definition agg_mode :: "string list \<Rightarrow> ids" where
  "agg_mode xs = (case mode xs of [x] \<Rightarrow> Scalar x | ms \<Rightarrow> Ndarray ms)"

definition crew_key :: "(string, string) crew_row \<Rightarrow> int \<times> string" where
  "crew_key r = (k_startYear r, k_genres r)"

fun apply_director_id2name ::
  "((int \<times> string) \<times> ids) list \<Rightarrow> (string \<rightharpoonup> string) \<Rightarrow> error + ((int \<times> string) \<times> string) list" where
  "apply_director_id2name [] d = Inr []"
| "apply_director_id2name (g # rest) d =
     (case director_id2name (snd g) d of
        Inl e \<Rightarrow> Inl e
      | Inr names \<Rightarrow>
          (case apply_director_id2name rest d of
             Inl e \<Rightarrow> Inl e
           | Inr done \<Rightarrow> Inr ((fst g, names) # done)))"

definition n_directors_of :: "(string, string) crew_row list \<Rightarrow> ((int \<times> string) \<times> nat) list" where
  "n_directors_of df =
     map (\<lambda>g. (fst g, nunique (map (\<lambda>r. Some (k_directors r)) (snd g)))) (groupby crew_key df)"

definition top_director_ids :: "(string, string) crew_row list \<Rightarrow> ((int \<times> string) \<times> ids) list" where
  "top_director_ids df =
     map (\<lambda>g. (fst g, agg_mode (map k_directors (snd g)))) (groupby crew_key df)"

definition n_writers_of :: "(string, string) crew_row list \<Rightarrow> ((int \<times> string) \<times> nat) list" where
  "n_writers_of df =
     map (\<lambda>g. (fst g, nunique (map k_writers (snd g)))) (groupby crew_key df)"

definition get_crew_data_by_group ::
  "clean_title_row list \<Rightarrow> title_crew_row list \<Rightarrow> (string \<rightharpoonup> string) \<Rightarrow>
   error + (((int \<times> string) \<times> nat) list \<times> ((int \<times> string) \<times> string) list \<times> ((int \<times> string) \<times> nat) list)" where
  "get_crew_data_by_group clean_title_basics_df title_crew_df director_id2name_dict =
     (let df = crew_exploded clean_title_basics_df title_crew_df;
          n_directors = n_directors_of df;
          top_directors = top_director_ids df;
          n_writers = n_writers_of df
      in case apply_director_id2name top_directors director_id2name_dict of
           Inl e \<Rightarrow> Inl e
         | Inr top_directors \<Rightarrow> Inr (n_directors, top_directors, n_writers))"

section \<open>run\_pipeline\<close>

record sources =
  NAME_BASICS :: "name_basics_row list"
  TITLE_BASICS :: "title_basics_row list"
  TITLE_RATINGS :: "title_ratings_row list"
  TITLE_CREW :: "title_crew_row list"

text \<open>The merged table after \<open>reset_index\<close> and the renaming of its columns.\<close>

record merged_output_row =
  m_startYear :: int
  m_genres :: string
  m_runtimeMinutes :: "rat option"
  m_averageRating :: "rat option"
  m_numVotes :: "int option"
  m_numWriters :: "nat option"
  m_numDirectors :: "nat option"
  m_topDirectors :: "string option"

text \<open>A row of the table that is written to \<open>OUTPUT_FILE_PATH\<close>.\<close>

record output_row =
  out_startYear :: int
  out_genres :: string
  out_runtimeMinutes :: "rat option"
  out_averageRating :: "rat option"
  out_numVotes :: int
  numWriters :: int
  numDirectors :: int
  topDirectors :: "string option"

definition resume_key :: "resume_row \<Rightarrow> int \<times> string" where
  "resume_key r = (y_startYear r, y_genres r)"

definition rename_columns ::
  "((resume_row \<times> ((int \<times> string) \<times> nat) option) \<times> ((int \<times> string) \<times> nat) option)
     \<times> ((int \<times> string) \<times> string) option \<Rightarrow> merged_output_row" where
  "rename_columns p =
     (case p of (((y, w), d), t) \<Rightarrow>
        \<lparr>m_startYear = y_startYear y, m_genres = y_genres y,
         m_runtimeMinutes = y_runtimeMinutes y, m_averageRating = y_averageRating y,
         m_numVotes = y_numVotes y,
         m_numWriters = map_option snd w, m_numDirectors = map_option snd d,
         m_topDirectors = map_option snd t\<rparr>)"

text \<open>The three left merges on the group index, then \<open>reset_index\<close> and the new column names.\<close>

definition merge_output ::
  "resume_row list \<Rightarrow> ((int \<times> string) \<times> nat) list \<Rightarrow> ((int \<times> string) \<times> nat) list \<Rightarrow>
   ((int \<times> string) \<times> string) list \<Rightarrow> merged_output_row list" where
  "merge_output year_genre_resume n_writers n_directors top_directors =
     (let output = merge_left resume_key fst year_genre_resume n_writers;
          output = merge_left (\<lambda>p. resume_key (fst p)) fst output n_directors;
          output = merge_left (\<lambda>p. resume_key (fst (fst p))) fst output top_directors
      in map rename_columns output)"

text \<open>
  Lines 239 and 240 round the two mean columns with Python's built-in \<open>round(x, 2)\<close>, which
  works on the stored double.  The built-in is a parameter \<open>py_round\<close> of the model: the
  float columns are exact rationals here, and nothing is assumed about the rounded values.
  A NaN stays a NaN.
\<close>

definition round_output ::
  "(rat \<Rightarrow> int \<Rightarrow> rat) \<Rightarrow> merged_output_row \<Rightarrow> merged_output_row" where
  "round_output py_round r =
     r\<lparr>m_runtimeMinutes := map_option (\<lambda>x. py_round x 2) (m_runtimeMinutes r),
       m_averageRating := map_option (\<lambda>x. py_round x 2) (m_averageRating r)\<rparr>"

text \<open>
  The casts of lines 243 to 246, on one row: \<open>numVotes\<close> to int, \<open>numDirectors\<close> to int with
  NaN as 0, \<open>startYear\<close> to int, and \<open>numWriters\<close> assigned from the \<open>numVotes\<close> column
  that was just cast.
\<close>

definition cast_row :: "merged_output_row \<Rightarrow> output_row" where
  "cast_row r =
     (let numVotes' = the (m_numVotes r);
          numDirectors' = (case m_numDirectors r of None \<Rightarrow> 0 | Some n \<Rightarrow> int n);
          startYear' = m_startYear r;
          numWriters' = numVotes'
      in \<lparr>out_startYear = startYear', out_genres = m_genres r,
          out_runtimeMinutes = m_runtimeMinutes r,
          out_averageRating = m_averageRating r,
          out_numVotes = numVotes', numWriters = numWriters',
          numDirectors = numDirectors', topDirectors = m_topDirectors r\<rparr>)"

text \<open>On the table: \<open>astype(int)\<close> of a \<open>numVotes\<close> column that holds a NaN raises.\<close>

definition cast_columns :: "merged_output_row list \<Rightarrow> error + output_row list" where
  "cast_columns output =
     (if list_ex (\<lambda>r. m_numVotes r = None) output then Inl ValueError
      else Inr (map cast_row output))"

text \<open>Lines 176 to 246: the table that \<open>run_pipeline\<close> hands to \<open>to_csv\<close>, or the exception.\<close>

definition run_pipeline_output ::
  "(rat \<Rightarrow> int \<Rightarrow> rat) \<Rightarrow> sources \<Rightarrow> error + output_row list" where
  "run_pipeline_output py_round src =
     (let director_id2name_dict = get_id2name_dict (NAME_BASICS src);
          clean_title_basics = process_title_basics_df (TITLE_BASICS src);
          clean_title_ratings = get_title_ratings clean_title_basics (TITLE_RATINGS src);
          year_genre_resume = get_year_genre_resume clean_title_ratings
      in case get_crew_data_by_group clean_title_basics (TITLE_CREW src) director_id2name_dict of
           Inl e \<Rightarrow> Inl e
         | Inr (n_directors, top_directors, n_writers) \<Rightarrow>
             cast_columns
               (map (round_output py_round)
                  (merge_output year_genre_resume n_writers n_directors top_directors)))"

text \<open>
  \<open>run_pipeline\<close> on the four loaded sources and the content of the output file (\<open>None\<close>
  when there is no file): the file is written once, by the last statement.
\<close>

definition run_pipeline ::
  "(rat \<Rightarrow> int \<Rightarrow> rat) \<Rightarrow> sources \<Rightarrow> output_row list option \<Rightarrow>
   (error + unit) \<times> output_row list option" where
  "run_pipeline py_round src file =
     (case run_pipeline_output py_round src of
        Inl e \<Rightarrow> (Inl e, file)
      | Inr output \<Rightarrow> (Inr (), Some output))"

section \<open>Notions of the specification\<close>

text \<open>Names joined by \<open>"; "\<close>: the separator stands between neighbours only.\<close>

fun join_names :: "string list \<Rightarrow> string" where
  "join_names [] = []"
| "join_names [n] = n"
| "join_names (n # m # ns) = n @ ''; '' @ join_names (m # ns)"

section \<open>The title cleaner keeps the movies of 2015 to 2020\<close>

text \<open>
  C1.  \<open>process_title_basics_df\<close> returns, in the order of the input, exactly the rows that
  have a start year, whose title type is "movie" and whose start year lies between 2015 and
  2020, both bounds included, each reduced to the four columns tconst, startYear, genres and
  runtimeMinutes.
\<close>

theorem process_title_basics_df_keeps_movies_in_range:
  "process_title_basics_df rows =
     map (\<lambda>r. \<lparr>c_tconst = tconst r, c_startYear = the (startYear r),
               c_genres = genres r, c_runtimeMinutes = runtimeMinutes r\<rparr>)
       (filter (\<lambda>r. case startYear r of
                       None \<Rightarrow> False
                     | Some y \<Rightarrow> titleType r = Some ''movie'' \<and> 2015 \<le> y \<and> y \<le> 2020) rows)"
proof -
  have "filter (\<lambda>r. movie_mask r \<and> date_mask r) (filter (\<lambda>r. startYear r \<noteq> None) rows) =
        filter (\<lambda>r. case startYear r of
                       None \<Rightarrow> False
                     | Some y \<Rightarrow> titleType r = Some ''movie'' \<and> 2015 \<le> y \<and> y \<le> 2020) rows"
    unfolding filter_filter
    by (rule filter_cong)
       (auto simp: movie_mask_def date_mask_def between_def TITLE_TYPE_def
          TITLE_BASICS_YEAR_FROM_def TITLE_BASICS_YEAR_TO_def split: option.splits)
  then show ?thesis
    by (simp add: process_title_basics_df_def Let_def used_columns_def [abs_def])
qed

theorem process_title_basics_df_keeps_movies_in_range_witness:
  "process_title_basics_df
     [\<lparr>tconst = ''t1'', titleType = Some ''movie'', startYear = Some 2015,
       genres = Some ''Drama'', runtimeMinutes = Some 100\<rparr>,
      \<lparr>tconst = ''t2'', titleType = Some ''movie'', startYear = Some 2020,
       genres = None, runtimeMinutes = None\<rparr>,
      \<lparr>tconst = ''t3'', titleType = Some ''movie'', startYear = Some 2014,
       genres = Some ''Drama'', runtimeMinutes = Some 90\<rparr>,
      \<lparr>tconst = ''t4'', titleType = Some ''movie'', startYear = Some 2021,
       genres = Some ''Drama'', runtimeMinutes = Some 90\<rparr>,
      \<lparr>tconst = ''t5'', titleType = Some ''short'', startYear = Some 2016,
       genres = Some ''Drama'', runtimeMinutes = Some 9\<rparr>,
      \<lparr>tconst = ''t6'', titleType = Some ''movie'', startYear = None,
       genres = Some ''Drama'', runtimeMinutes = Some 90\<rparr>] =
   [\<lparr>c_tconst = ''t1'', c_startYear = 2015, c_genres = Some ''Drama'',
     c_runtimeMinutes = Some 100\<rparr>,
    \<lparr>c_tconst = ''t2'', c_startYear = 2020, c_genres = None, c_runtimeMinutes = None\<rparr>]"
  by (simp add: process_title_basics_df_keeps_movies_in_range)

section \<open>Splitting, merging and exploding\<close>

lemma split_comma_not_Nil: "split_comma s \<noteq> []"
  by (induction s) (auto split: list.splits)

lemma length_split_comma: "length (split_comma s) = Suc (count_list s CHR '','')"
  by (induction s) (auto split: list.splits simp: split_comma_not_Nil)

lemma filter_key_distinct:
  "distinct (map kr rs) \<Longrightarrow>
   filter (\<lambda>r. kr r = k) rs = (case find (\<lambda>r. kr r = k) rs of None \<Rightarrow> [] | Some r \<Rightarrow> [r])"
proof (induction rs)
  case Nil
  then show ?case by simp
next
  case (Cons r rs)
  show ?case
  proof (cases "kr r = k")
    case True
    with Cons.prems have "k \<notin> kr ` set rs"
      by auto
    then have "filter (\<lambda>x. kr x = k) rs = []"
      by (auto simp: filter_empty_conv)
    with True show ?thesis by simp
  next
    case False
    with Cons show ?thesis by simp
  qed
qed

lemma merge_left_distinct:
  assumes "distinct (map kr rs)"
  shows "merge_left kl kr ls rs = map (\<lambda>l. (l, find (\<lambda>r. kr r = kl l) rs)) ls"
proof -
  have "(case filter (\<lambda>r. kr r = kl l) rs of [] \<Rightarrow> [(l, None)] | ms \<Rightarrow> map (\<lambda>r. (l, Some r)) ms)
        = [(l, find (\<lambda>r. kr r = kl l) rs)]" for l
    by (simp add: filter_key_distinct [OF assms] split: option.splits)
  then show ?thesis
    by (simp add: merge_left_def)
qed

lemma explode_concat_rows: "explode col put rows = concat (map (\<lambda>r. explode col put [r]) rows)"
  by (simp add: explode_def)

lemma map_fst_merge_left:
  "map fst (merge_left kl kr ls rs) =
   concat (map (\<lambda>l. replicate (max 1 (length (filter (\<lambda>k. k = kl l) (map kr rs)))) l) ls)"
proof -
  have "map fst (case filter (\<lambda>r. kr r = kl l) rs of
                   [] \<Rightarrow> [(l, None)]
                 | ms \<Rightarrow> map (\<lambda>r. (l, Some r)) ms) =
        replicate (max 1 (length (filter (\<lambda>k. k = kl l) (map kr rs)))) l" for l
  proof -
    have len: "length (filter (\<lambda>k. k = kl l) (map kr rs)) = length (filter (\<lambda>r. kr r = kl l) rs)"
      by (simp add: filter_map comp_def)
    show ?thesis
      unfolding len
      by (cases "filter (\<lambda>r. kr r = kl l) rs") (simp_all add: comp_def map_replicate_const)
  qed
  then show ?thesis
    by (simp add: merge_left_def map_concat comp_def)
qed

lemma merge_left_right_keys:
  "map kr' rs' = map kr rs \<Longrightarrow>
   map fst (merge_left kl kr' ls rs') = map fst (merge_left kl kr ls rs)"
  by (simp add: map_fst_merge_left)

lemma merge_left_apfst:
  "map (apfst h) (merge_left (\<lambda>p. kl (h p)) kr ls rs) = merge_left kl kr (map h ls) rs"
proof -
  have "map (apfst h) (case filter (\<lambda>r. kr r = kl (h l)) rs of
                         [] \<Rightarrow> [(l, None)]
                       | ms \<Rightarrow> map (\<lambda>r. (l, Some r)) ms) =
        (case filter (\<lambda>r. kr r = kl (h l)) rs of
           [] \<Rightarrow> [(h l, None)]
         | ms \<Rightarrow> map (\<lambda>r. (h l, Some r)) ms)" for l
    by (cases "filter (\<lambda>r. kr r = kl (h l)) rs") simp_all
  then show ?thesis
    by (simp add: merge_left_def map_concat comp_def)
qed

lemma map_cong_through:
  assumes "map s xs = map s ys" and "\<And>x y. s x = s y \<Longrightarrow> f x = f y"
  shows "map f xs = map f ys"
  using assms(1)
proof (induction xs arbitrary: ys)
  case Nil
  then show ?case by simp
next
  case (Cons x xs)
  from Cons.prems obtain y ys' where ys: "ys = y # ys'"
    and xy: "s x = s y" and rest: "map s xs = map s ys'"
    by (cases ys) auto
  from xy have "f x = f y" by (rule assms(2))
  moreover from rest have "map f xs = map f ys'" by (rule Cons.IH)
  ultimately show ?case by (simp add: ys)
qed

lemma set_merge_left: "set (map fst (merge_left kl kr ls rs)) = set ls"
  by (auto simp: map_fst_merge_left)

section \<open>Director names are joined in the order of the ids\<close>

lemma id2name_loop_present:
  "set xs \<subseteq> dom d \<Longrightarrow>
   id2name_loop xs d acc = Inr (acc @ concat (map (\<lambda>i. the (d i) @ ''; '') xs))"
  by (induction xs arbitrary: acc) auto

lemma concat_sep_join_names:
  "ns \<noteq> [] \<Longrightarrow> concat (map (\<lambda>n. n @ ''; '') ns) = join_names ns @ ''; ''"
  by (induction ns rule: join_names.induct) auto

lemma endswith_append: "endswith (s @ t) t"
  by (simp add: endswith_def)

lemma director_id2name_Ndarray:
  assumes "set xs \<subseteq> dom d"
  shows "director_id2name (Ndarray xs) d = Inr (join_names (map (\<lambda>i. the (d i)) xs))"
proof (cases "xs = []")
  case True
  then show ?thesis by (simp add: director_id2name_def endswith_def)
next
  case False
  have "concat (map (\<lambda>i. the (d i) @ ''; '') xs) = join_names (map (\<lambda>i. the (d i)) xs) @ ''; ''"
    using concat_sep_join_names [of "map (\<lambda>i. the (d i)) xs"] False
    by (simp add: comp_def)
  then show ?thesis
    using id2name_loop_present [OF assms, of "[]"]
    by (simp add: director_id2name_def endswith_append)
qed

lemma director_id2name_Scalar:
  "d i = Some n \<Longrightarrow> director_id2name (Scalar i) d = Inr n"
  by (simp add: director_id2name_def)

text \<open>
  C8.  When every id of the array is a key of the lookup, \<open>director_id2name\<close> returns the
  names of the ids, in the order of the ids, with \<open>"; "\<close> between neighbours and nothing
  after the last one; for a single id that is a key it returns just the name.
\<close>

theorem director_id2name_joins_names:
  assumes "set xs \<subseteq> dom d"
  shows "director_id2name (Ndarray xs) d = Inr (join_names (map (\<lambda>i. the (d i)) xs)) \<and>
         (\<forall>i \<in> dom d. director_id2name (Scalar i) d = Inr (the (d i)))"
  using director_id2name_Ndarray [OF assms] by (auto simp: director_id2name_Scalar)

theorem director_id2name_joins_names_witness:
  "director_id2name (Ndarray [''d1'', ''d2'']) [''d1'' \<mapsto> ''Alice'', ''d2'' \<mapsto> ''Bob'']
     = Inr ''Alice; Bob'' \<and>
   director_id2name (Scalar ''d2'') [''d1'' \<mapsto> ''Alice'', ''d2'' \<mapsto> ''Bob''] = Inr ''Bob''"
proof -
  have h: "set [''d1'', ''d2''] \<subseteq> dom [''d1'' \<mapsto> ''Alice'', ''d2'' \<mapsto> ''Bob'']"
    by simp
  have m: "''d2'' \<in> dom [''d1'' \<mapsto> ''Alice'', ''d2'' \<mapsto> ''Bob'']"
    by simp
  from director_id2name_joins_names [OF h] m show ?thesis
    by (simp del: dom_fun_upd)
qed


section \<open>The mode of a column\<close>

lemma foldr_max_Max:
  "foldr (\<lambda>x m. max (f x) m) zs (0::nat) = Max (insert 0 (f ` set zs))"
proof (induction zs)
  case Nil
  then show ?case by simp
next
  case (Cons z zs)
  have "Max (insert 0 (f ` set (z # zs))) = Max (insert (f z) (insert 0 (f ` set zs)))"
    by (simp add: insert_commute)
  also have "\<dots> = max (f z) (Max (insert 0 (f ` set zs)))"
    by (rule Max_insert) auto
  finally show ?case using Cons by simp
qed

lemma max_count_Max: "max_count xs = Max (insert 0 (count_list xs ` set xs))"
  by (simp add: max_count_def foldr_max_Max)

lemma count_list_mset: "mset xs = mset ys \<Longrightarrow> count_list xs = count_list ys"
  by (metis count_mset ext)

lemma max_count_mset: "mset xs = mset ys \<Longrightarrow> max_count xs = max_count ys"
  by (simp add: max_count_Max count_list_mset [of xs ys] mset_eq_setD [of xs ys])

lemma count_le_max_count: "count_list xs x \<le> max_count xs"
proof (cases "x \<in> set xs")
  case True
  then show ?thesis by (simp add: max_count_Max)
next
  case False
  then show ?thesis by (simp add: count_list_0_iff)
qed

lemma mode_sorted_list_of_set:
  "mode xs = sorted_list_of_set {x \<in> set xs. count_list xs x = max_count xs}"
proof -
  have "mode xs = sort (remdups (filter (\<lambda>x. count_list xs x = max_count xs) xs))"
    by (simp add: mode_def remdups_filter)
  also have "\<dots> = sorted_list_of_set (set (filter (\<lambda>x. count_list xs x = max_count xs) xs))"
    by (simp only: sorted_list_of_set_sort_remdups)
  also have "set (filter (\<lambda>x. count_list xs x = max_count xs) xs) =
             {x \<in> set xs. count_list xs x = max_count xs}"
    by simp
  finally show ?thesis .
qed

lemma set_mode: "set (mode xs) = {x \<in> set xs. count_list xs x = max_count xs}"
  by (simp add: mode_def)

lemma set_mode_most_frequent:
  "set (mode xs) = {x \<in> set xs. \<forall>y. count_list xs y \<le> count_list xs x}"
proof (cases "xs = []")
  case True
  then show ?thesis by (simp add: mode_def)
next
  case False
  have "Max (insert 0 (count_list xs ` set xs)) \<in> insert 0 (count_list xs ` set xs)"
    by (rule Max_in) auto
  moreover have "0 < max_count xs"
    using False count_le_max_count [of xs "hd xs"] by (cases xs) auto
  ultimately obtain m where m: "m \<in> set xs" "count_list xs m = max_count xs"
    by (auto simp: max_count_Max)
  show ?thesis
  proof (intro set_eqI iffI)
    fix x assume "x \<in> set (mode xs)"
    then show "x \<in> {x \<in> set xs. \<forall>y. count_list xs y \<le> count_list xs x}"
      by (auto simp: set_mode count_le_max_count)
  next
    fix x assume "x \<in> {x \<in> set xs. \<forall>y. count_list xs y \<le> count_list xs x}"
    then have "x \<in> set xs" and "count_list xs m \<le> count_list xs x" by auto
    with m count_le_max_count [of xs x] show "x \<in> set (mode xs)"
      by (simp add: set_mode)
  qed
qed

lemma sorted_mode: "sorted_wrt (<) (mode xs)"
  by (simp add: mode_sorted_list_of_set)

lemma mode_mset: "mset xs = mset ys \<Longrightarrow> mode xs = mode ys"
  by (simp add: mode_sorted_list_of_set count_list_mset [of xs ys] max_count_mset [of xs ys]
      mset_eq_setD [of xs ys])

lemma mode_not_Nil: "xs \<noteq> [] \<Longrightarrow> mode xs \<noteq> []"
proof -
  assume "xs \<noteq> []"
  then have "hd xs \<in> set xs" by simp
  have "Max (insert 0 (count_list xs ` set xs)) \<in> insert 0 (count_list xs ` set xs)"
    by (rule Max_in) auto
  moreover have "0 < max_count xs"
    using \<open>xs \<noteq> []\<close> count_le_max_count [of xs "hd xs"] by (cases xs) auto
  ultimately obtain m where "m \<in> set xs" "count_list xs m = max_count xs"
    by (auto simp: max_count_Max)
  then have "m \<in> set (mode xs)" by (simp add: set_mode)
  then show ?thesis by auto
qed

section \<open>Grouping\<close>

lemma map_fst_groupby: "map fst (groupby key rows) = sort (remdups (map key rows))"
  by (simp add: groupby_def comp_def)

lemma distinct_groupby: "distinct (map fst (groupby key rows))"
  by (simp add: map_fst_groupby)

lemma set_groupby_keys: "fst ` set (groupby key rows) = key ` set rows"
  using arg_cong [OF map_fst_groupby, of set key rows] by simp

lemma groupby_rows:
  "(k, g) \<in> set (groupby key rows) \<Longrightarrow> g = filter (\<lambda>r. key r = k) rows \<and> k \<in> key ` set rows"
  by (auto simp: groupby_def)

lemma groupby_rows_not_Nil:
  assumes "(k, g) \<in> set (groupby key rows)"
  shows "g \<noteq> []"
proof -
  from groupby_rows [OF assms] obtain r where "r \<in> set rows" "key r = k"
    and g: "g = filter (\<lambda>r. key r = k) rows"
    by auto
  then have "r \<in> set g" by simp
  then show ?thesis by auto
qed

section \<open>One row per year and genre\<close>

lemma resume_key_agg: "resume_key (RESUME_AGG_FUNCTIONS_DICT g) = fst g"
  by (cases g) (simp add: resume_key_def RESUME_AGG_FUNCTIONS_DICT_def)

lemma map_resume_key:
  "map resume_key (get_year_genre_resume rows) = sort (remdups (map RESUME_GROUPED_BY rows))"
  by (simp add: get_year_genre_resume_def comp_def resume_key_agg map_fst_groupby [symmetric])

lemma resume_row_of_group:
  assumes "x \<in> set (get_year_genre_resume rows)"
  shows "x = RESUME_AGG_FUNCTIONS_DICT
               (resume_key x, filter (\<lambda>r. RESUME_GROUPED_BY r = resume_key x) rows)"
proof -
  from assms obtain g where g: "g \<in> set (groupby RESUME_GROUPED_BY rows)"
    and x: "x = RESUME_AGG_FUNCTIONS_DICT g"
    by (auto simp: get_year_genre_resume_def)
  obtain k rs where kr: "g = (k, rs)" by (cases g)
  with g groupby_rows [of k rs RESUME_GROUPED_BY rows]
  have "rs = filter (\<lambda>r. RESUME_GROUPED_BY r = k) rows" by simp
  moreover have "resume_key x = k" by (simp add: x kr resume_key_agg)
  ultimately show ?thesis by (simp add: x kr)
qed

text \<open>
  C4.  The output of \<open>get_year_genre_resume\<close> has exactly one row for each distinct pair
  (startYear, genres) of its input: no pair twice, every pair of the input and no other.  In
  the row of a group, runtimeMinutes and averageRating are the arithmetic means of the values
  of the group that are present, and numVotes is the sum of the values that are present.
\<close>

theorem get_year_genre_resume_one_row_per_group:
  "distinct (map resume_key (get_year_genre_resume rows)) \<and>
   set (map resume_key (get_year_genre_resume rows)) = set (map RESUME_GROUPED_BY rows) \<and>
   (\<forall>x \<in> set (get_year_genre_resume rows).
      (let group = filter (\<lambda>r. RESUME_GROUPED_BY r = (y_startYear x, y_genres x)) rows;
           runtimes = dropna (map t_runtimeMinutes group);
           ratings = dropna (map t_averageRating group);
           votes = dropna (map t_numVotes group)
       in group \<noteq> [] \<and>
          y_runtimeMinutes x =
            (if runtimes = [] then None
             else Some (sum_list runtimes / of_nat (length runtimes))) \<and>
          y_averageRating x =
            (if ratings = [] then None
             else Some (sum_list ratings / of_nat (length ratings))) \<and>
          y_numVotes x = Some (sum_list votes)))"
proof (intro conjI ballI)
  show "distinct (map resume_key (get_year_genre_resume rows))"
    by (simp add: map_resume_key)
  show "set (map resume_key (get_year_genre_resume rows)) = set (map RESUME_GROUPED_BY rows)"
    by (simp add: map_resume_key)
next
  fix x assume x: "x \<in> set (get_year_genre_resume rows)"
  let ?g = "filter (\<lambda>r. RESUME_GROUPED_BY r = resume_key x) rows"
  from x have "resume_key x \<in> set (map resume_key (get_year_genre_resume rows))"
    by simp
  then have "resume_key x \<in> RESUME_GROUPED_BY ` set rows"
    by (simp add: map_resume_key)
  then have ne: "?g \<noteq> []"
    by (auto simp: filter_empty_conv)
  have eq: "x = RESUME_AGG_FUNCTIONS_DICT (resume_key x, ?g)"
    by (rule resume_row_of_group [OF x])
  have "y_runtimeMinutes x = mean (map t_runtimeMinutes ?g)"
    and "y_averageRating x = mean (map t_averageRating ?g)"
    and "y_numVotes x = sum_agg (map t_numVotes ?g)"
    by (subst eq, simp add: RESUME_AGG_FUNCTIONS_DICT_def)+
  with ne show "let group = filter (\<lambda>r. RESUME_GROUPED_BY r = (y_startYear x, y_genres x)) rows;
           runtimes = dropna (map t_runtimeMinutes group);
           ratings = dropna (map t_averageRating group);
           votes = dropna (map t_numVotes group)
       in group \<noteq> [] \<and>
          y_runtimeMinutes x =
            (if runtimes = [] then None
             else Some (sum_list runtimes / of_nat (length runtimes))) \<and>
          y_averageRating x =
            (if ratings = [] then None
             else Some (sum_list ratings / of_nat (length ratings))) \<and>
          y_numVotes x = Some (sum_list votes)"
    by (simp add: Let_def mean_def sum_agg_def resume_key_def)
qed

theorem get_year_genre_resume_one_row_per_group_witness:
  "\<lparr>y_startYear = 2016, y_genres = ''Drama'', y_runtimeMinutes = Some 75,
     y_averageRating = Some (15 / 2), y_numVotes = Some 15\<rparr>
   \<in> set (get_year_genre_resume
     [\<lparr>t_tconst = ''t1'', t_startYear = 2016, t_genres = ''Drama'',
        t_runtimeMinutes = Some 100, t_averageRating = Some (15 / 2), t_numVotes = Some 10\<rparr>,
      \<lparr>t_tconst = ''t2'', t_startYear = 2015, t_genres = ''Drama'',
        t_runtimeMinutes = None, t_averageRating = Some (13 / 2), t_numVotes = None\<rparr>,
      \<lparr>t_tconst = ''t3'', t_startYear = 2016, t_genres = ''Drama'',
        t_runtimeMinutes = Some 50, t_averageRating = None, t_numVotes = Some 5\<rparr>]) \<and>
   set (map resume_key (get_year_genre_resume
     [\<lparr>t_tconst = ''t1'', t_startYear = 2016, t_genres = ''Drama'',
        t_runtimeMinutes = Some 100, t_averageRating = Some (15 / 2), t_numVotes = Some 10\<rparr>,
      \<lparr>t_tconst = ''t2'', t_startYear = 2015, t_genres = ''Drama'',
        t_runtimeMinutes = None, t_averageRating = Some (13 / 2), t_numVotes = None\<rparr>,
      \<lparr>t_tconst = ''t3'', t_startYear = 2016, t_genres = ''Drama'',
        t_runtimeMinutes = Some 50, t_averageRating = None, t_numVotes = Some 5\<rparr>])) =
   {(2016, ''Drama''), (2015, ''Drama'')}"
proof -
  let ?rows = "[\<lparr>t_tconst = ''t1'', t_startYear = 2016, t_genres = ''Drama'',
        t_runtimeMinutes = Some 100, t_averageRating = Some (15 / 2), t_numVotes = Some 10\<rparr>,
      \<lparr>t_tconst = ''t2'', t_startYear = 2015, t_genres = ''Drama'',
        t_runtimeMinutes = None, t_averageRating = Some (13 / 2), t_numVotes = None\<rparr>,
      \<lparr>t_tconst = ''t3'', t_startYear = 2016, t_genres = ''Drama'',
        t_runtimeMinutes = Some 50, t_averageRating = None, t_numVotes = Some 5\<rparr>]"
  have m: "\<lparr>y_startYear = 2016, y_genres = ''Drama'', y_runtimeMinutes = Some 75,
     y_averageRating = Some (15 / 2), y_numVotes = Some 15\<rparr> \<in> set (get_year_genre_resume ?rows)"
    by code_simp
  from get_year_genre_resume_one_row_per_group [of ?rows]
  have "set (map resume_key (get_year_genre_resume ?rows)) = set (map RESUME_GROUPED_BY ?rows)"
    by blast
  then have "set (map resume_key (get_year_genre_resume ?rows)) = {(2016, ''Drama''), (2015, ''Drama'')}"
    by (auto simp: RESUME_GROUPED_BY_def)
  with m show ?thesis by blast
qed

section \<open>A group without any value of a measure\<close>

lemma dropna_all_None: "(\<forall>x \<in> set xs. x = None) \<Longrightarrow> dropna xs = []"
  by (simp add: dropna_def List.map_filter_def filter_empty_conv)

lemma mean_all_None: "(\<forall>x \<in> set xs. x = None) \<Longrightarrow> mean xs = None"
  by (simp add: mean_def dropna_all_None)

lemma sum_agg_all_None: "(\<forall>x \<in> set xs. x = None) \<Longrightarrow> sum_agg xs = Some 0"
  by (simp add: sum_agg_def dropna_all_None)

text \<open>
  C5, as stated, fails for numVotes: the sum over a group none of whose numVotes is present
  is 0, not null.  Here the one group (2015, Drama) has no numVotes and no averageRating.
\<close>

theorem all_null_numVotes_sums_to_zero:
  "list_all (\<lambda>r. t_numVotes r = None)
     [\<lparr>t_tconst = ''t1'', t_startYear = 2015, t_genres = ''Drama'',
       t_runtimeMinutes = Some 100, t_averageRating = None, t_numVotes = None\<rparr>] \<and>
   get_year_genre_resume
     [\<lparr>t_tconst = ''t1'', t_startYear = 2015, t_genres = ''Drama'',
       t_runtimeMinutes = Some 100, t_averageRating = None, t_numVotes = None\<rparr>] =
     [\<lparr>y_startYear = 2015, y_genres = ''Drama'', y_runtimeMinutes = Some 100,
       y_averageRating = None, y_numVotes = Some 0\<rparr>]"
  by code_simp

text \<open>
  C5, amended.  For the row of a group in the output of \<open>get_year_genre_resume\<close>: when no
  row of the group has a runtimeMinutes, the runtimeMinutes of the output row is null; when no
  row of the group has an averageRating, its averageRating is null; when no row of the group
  has a numVotes, its numVotes is 0.
\<close>

theorem all_null_measure_of_group:
  assumes "x \<in> set (get_year_genre_resume rows)"
  shows "((\<forall>r \<in> set rows. RESUME_GROUPED_BY r = resume_key x \<longrightarrow> t_runtimeMinutes r = None)
            \<longrightarrow> y_runtimeMinutes x = None) \<and>
         ((\<forall>r \<in> set rows. RESUME_GROUPED_BY r = resume_key x \<longrightarrow> t_averageRating r = None)
            \<longrightarrow> y_averageRating x = None) \<and>
         ((\<forall>r \<in> set rows. RESUME_GROUPED_BY r = resume_key x \<longrightarrow> t_numVotes r = None)
            \<longrightarrow> y_numVotes x = Some 0)"
proof -
  let ?g = "filter (\<lambda>r. RESUME_GROUPED_BY r = resume_key x) rows"
  have eq: "x = RESUME_AGG_FUNCTIONS_DICT (resume_key x, ?g)"
    by (rule resume_row_of_group [OF assms])
  have "y_runtimeMinutes x = mean (map t_runtimeMinutes ?g)"
    and "y_averageRating x = mean (map t_averageRating ?g)"
    and "y_numVotes x = sum_agg (map t_numVotes ?g)"
    by (subst eq, simp add: RESUME_AGG_FUNCTIONS_DICT_def)+
  then show ?thesis
    by (auto intro!: mean_all_None sum_agg_all_None)
qed

theorem all_null_measure_of_group_witness:
  "list_all (\<lambda>r. t_runtimeMinutes r = None \<and> t_averageRating r = None \<and> t_numVotes r = None)
     [\<lparr>t_tconst = ''t1'', t_startYear = 2015, t_genres = ''Drama'',
       t_runtimeMinutes = None, t_averageRating = None, t_numVotes = None\<rparr>,
      \<lparr>t_tconst = ''t2'', t_startYear = 2015, t_genres = ''Drama'',
       t_runtimeMinutes = None, t_averageRating = None, t_numVotes = None\<rparr>] \<and>
   \<lparr>y_startYear = 2015, y_genres = ''Drama'', y_runtimeMinutes = None,
       y_averageRating = None, y_numVotes = Some 0\<rparr>
   \<in> set (get_year_genre_resume
     [\<lparr>t_tconst = ''t1'', t_startYear = 2015, t_genres = ''Drama'',
       t_runtimeMinutes = None, t_averageRating = None, t_numVotes = None\<rparr>,
      \<lparr>t_tconst = ''t2'', t_startYear = 2015, t_genres = ''Drama'',
       t_runtimeMinutes = None, t_averageRating = None, t_numVotes = None\<rparr>]) \<and>
   y_runtimeMinutes \<lparr>y_startYear = 2015, y_genres = ''Drama'', y_runtimeMinutes = None,
       y_averageRating = None, y_numVotes = Some 0\<rparr> = None \<and>
   y_averageRating \<lparr>y_startYear = 2015, y_genres = ''Drama'', y_runtimeMinutes = None,
       y_averageRating = None, y_numVotes = Some 0\<rparr> = None \<and>
   y_numVotes \<lparr>y_startYear = 2015, y_genres = ''Drama'', y_runtimeMinutes = None,
       y_averageRating = None, y_numVotes = Some 0\<rparr> = Some 0"
proof -
  let ?rows = "[\<lparr>t_tconst = ''t1'', t_startYear = 2015, t_genres = ''Drama'',
       t_runtimeMinutes = None, t_averageRating = None, t_numVotes = None\<rparr>,
      \<lparr>t_tconst = ''t2'', t_startYear = 2015, t_genres = ''Drama'',
       t_runtimeMinutes = None, t_averageRating = None, t_numVotes = None\<rparr>]"
  let ?x = "\<lparr>y_startYear = 2015, y_genres = ''Drama'', y_runtimeMinutes = None,
       y_averageRating = None, y_numVotes = Some 0\<rparr>"
  have m: "?x \<in> set (get_year_genre_resume ?rows)"
    by code_simp
  have a: "\<forall>r \<in> set ?rows. RESUME_GROUPED_BY r = resume_key ?x \<longrightarrow> t_runtimeMinutes r = None"
    and b: "\<forall>r \<in> set ?rows. RESUME_GROUPED_BY r = resume_key ?x \<longrightarrow> t_averageRating r = None"
    and c: "\<forall>r \<in> set ?rows. RESUME_GROUPED_BY r = resume_key ?x \<longrightarrow> t_numVotes r = None"
    by simp_all
  from all_null_measure_of_group [OF m] a b c
  have "y_runtimeMinutes ?x = None \<and> y_averageRating ?x = None \<and> y_numVotes ?x = Some 0"
    by blast
  with m show ?thesis
    by simp
qed

section \<open>Titles joined with their ratings, one row per genre\<close>

lemma explode_split_genres:
  "explode t_genres put_genre (map split_genres (filter (\<lambda>r. t_genres r \<noteq> None) rows)) =
   concat (map (\<lambda>r. case t_genres r of
                        None \<Rightarrow> []
                      | Some g \<Rightarrow> map (put_genre (split_genres r)) (split_comma g)) rows)"
  by (induction rows) (auto simp: explode_def split_genres_def)

lemma get_title_ratings_unique_ids:
  assumes "distinct (map r_tconst title_ratings_df)"
  shows "map fst (merge_left c_tconst r_tconst clean_title_basics_df title_ratings_df) =
           clean_title_basics_df \<and>
         get_title_ratings clean_title_basics_df title_ratings_df =
           concat (map (\<lambda>c.
             case c_genres c of
               None \<Rightarrow> []
             | Some g \<Rightarrow>
                 map (\<lambda>x.
                   \<lparr>t_tconst = c_tconst c, t_startYear = c_startYear c, t_genres = x,
                    t_runtimeMinutes = map_option of_int (c_runtimeMinutes c),
                    t_averageRating =
                      (case find (\<lambda>r. r_tconst r = c_tconst c) title_ratings_df of
                         None \<Rightarrow> None
                       | Some r \<Rightarrow> averageRating r),
                    t_numVotes =
                      (case find (\<lambda>r. r_tconst r = c_tconst c) title_ratings_df of
                         None \<Rightarrow> None
                       | Some r \<Rightarrow> numVotes r)\<rparr>)
                   (split_comma g))
             clean_title_basics_df)"
proof -
  have m: "merge_left c_tconst r_tconst clean_title_basics_df title_ratings_df =
           map (\<lambda>c. (c, find (\<lambda>r. r_tconst r = c_tconst c) title_ratings_df)) clean_title_basics_df"
    by (rule merge_left_distinct [OF assms])
  have "get_title_ratings clean_title_basics_df title_ratings_df =
        map astype_float (concat (map (\<lambda>r. case t_genres r of
                        None \<Rightarrow> []
                      | Some g \<Rightarrow> map (put_genre (split_genres r)) (split_comma g))
           (map merged_titles (merge_left c_tconst r_tconst clean_title_basics_df title_ratings_df))))"
    by (simp only: get_title_ratings_def Let_def explode_split_genres)
  also have "\<dots> = concat (map (\<lambda>c.
             case c_genres c of
               None \<Rightarrow> []
             | Some g \<Rightarrow>
                 map (\<lambda>x.
                   \<lparr>t_tconst = c_tconst c, t_startYear = c_startYear c, t_genres = x,
                    t_runtimeMinutes = map_option of_int (c_runtimeMinutes c),
                    t_averageRating =
                      (case find (\<lambda>r. r_tconst r = c_tconst c) title_ratings_df of
                         None \<Rightarrow> None
                       | Some r \<Rightarrow> averageRating r),
                    t_numVotes =
                      (case find (\<lambda>r. r_tconst r = c_tconst c) title_ratings_df of
                         None \<Rightarrow> None
                       | Some r \<Rightarrow> numVotes r)\<rparr>)
                   (split_comma g))
             clean_title_basics_df)"
    unfolding m map_concat map_map
    by (rule arg_cong [where f = concat], rule map_cong)
       (auto simp: merged_titles_def put_genre_def split_genres_def astype_float_def
          split: option.splits)
  finally show ?thesis
    by (simp add: m comp_def)
qed

lemma merge_left_matches:
  "merge_left kl kr ls rs =
     concat (map (\<lambda>l. map (Pair l)
                        (case filter (\<lambda>r. kr r = kl l) rs of
                           [] \<Rightarrow> [None]
                         | ms \<Rightarrow> map Some ms)) ls)"
proof -
  have "(case filter (\<lambda>r. kr r = kl l) rs of [] \<Rightarrow> [(l, None)] | ms \<Rightarrow> map (\<lambda>r. (l, Some r)) ms) =
        map (Pair l) (case filter (\<lambda>r. kr r = kl l) rs of [] \<Rightarrow> [None] | ms \<Rightarrow> map Some ms)" for l
    by (cases "filter (\<lambda>r. kr r = kl l) rs") simp_all
  then show ?thesis
    by (simp only: merge_left_def)
qed

lemma concat_map_concat:
  "concat (map f (concat xss)) = concat (map (\<lambda>xs. concat (map f xs)) xss)"
  by (induction xss) simp_all

lemma get_title_ratings_joined_rows:
  "get_title_ratings clean_title_basics_df title_ratings_df =
     concat (map (\<lambda>c.
       concat (map (\<lambda>m.
         case c_genres c of
           None \<Rightarrow> []
         | Some g \<Rightarrow>
             map (\<lambda>x.
               \<lparr>t_tconst = c_tconst c, t_startYear = c_startYear c, t_genres = x,
                t_runtimeMinutes = map_option of_int (c_runtimeMinutes c),
                t_averageRating = (case m of None \<Rightarrow> None | Some r \<Rightarrow> averageRating r),
                t_numVotes = (case m of None \<Rightarrow> None | Some r \<Rightarrow> numVotes r)\<rparr>)
               (split_comma g))
         (case filter (\<lambda>r. r_tconst r = c_tconst c) title_ratings_df of
            [] \<Rightarrow> [None]
          | ms \<Rightarrow> map Some ms)))
       clean_title_basics_df)"
proof -
  let ?rows = "\<lambda>r. case t_genres r of
                        None \<Rightarrow> []
                      | Some g \<Rightarrow> map (put_genre (split_genres r)) (split_comma g)"
  let ?matches = "\<lambda>c. case filter (\<lambda>r. r_tconst r = c_tconst c) title_ratings_df of
                         [] \<Rightarrow> [None]
                       | ms \<Rightarrow> map Some ms"
  have "get_title_ratings clean_title_basics_df title_ratings_df =
        map astype_float (concat (map ?rows
           (map merged_titles (merge_left c_tconst r_tconst clean_title_basics_df title_ratings_df))))"
    by (simp only: get_title_ratings_def Let_def explode_split_genres)
  also have "\<dots> = concat (map (\<lambda>p. map astype_float (?rows (merged_titles p)))
           (merge_left c_tconst r_tconst clean_title_basics_df title_ratings_df))"
    by (simp add: map_concat comp_def)
  also have "\<dots> = concat (map (\<lambda>c. concat (map (\<lambda>m. map astype_float (?rows (merged_titles (c, m))))
                       (?matches c))) clean_title_basics_df)"
    by (simp add: merge_left_matches concat_map_concat comp_def)
  also have "\<dots> = concat (map (\<lambda>c.
       concat (map (\<lambda>m.
         case c_genres c of
           None \<Rightarrow> []
         | Some g \<Rightarrow>
             map (\<lambda>x.
               \<lparr>t_tconst = c_tconst c, t_startYear = c_startYear c, t_genres = x,
                t_runtimeMinutes = map_option of_int (c_runtimeMinutes c),
                t_averageRating = (case m of None \<Rightarrow> None | Some r \<Rightarrow> averageRating r),
                t_numVotes = (case m of None \<Rightarrow> None | Some r \<Rightarrow> numVotes r)\<rparr>)
               (split_comma g))
         (?matches c)))
       clean_title_basics_df)"
  proof -
    have "map astype_float (?rows (merged_titles (c, m))) =
          (case c_genres c of
           None \<Rightarrow> []
         | Some g \<Rightarrow>
             map (\<lambda>x.
               \<lparr>t_tconst = c_tconst c, t_startYear = c_startYear c, t_genres = x,
                t_runtimeMinutes = map_option of_int (c_runtimeMinutes c),
                t_averageRating = (case m of None \<Rightarrow> None | Some r \<Rightarrow> averageRating r),
                t_numVotes = (case m of None \<Rightarrow> None | Some r \<Rightarrow> numVotes r)\<rparr>)
               (split_comma g))" for c m
      by (simp add: merged_titles_def put_genre_def split_genres_def astype_float_def
          split: option.splits)
    then show ?thesis by (simp only:)
  qed
  finally show ?thesis .
qed

text \<open>
  C3.  For every table of clean titles and every ratings table, \<open>get_title_ratings\<close> returns
  the following rows, in this order.  Each clean title is joined with every ratings row of
  its id, in the order of the ratings table, or, when no ratings row has its id, once with
  null rating columns: no clean title is lost by the merge and a missing id is no error.  A
  joined row whose genres is null gives no row.  Every other joined row gives one row for
  each piece of its genres split on commas, with the title's id, year and runtimeMinutes (as
  a float) and the joined rating columns repeated.  When the ids of the ratings table are
  unique (the invariant of the raw ratings), each clean title is joined exactly once, with
  the one ratings row of its id if there is one.
\<close>

theorem get_title_ratings_joins_and_explodes:
  "get_title_ratings clean_title_basics_df title_ratings_df =
     concat (map (\<lambda>c.
       concat (map (\<lambda>m.
         case c_genres c of
           None \<Rightarrow> []
         | Some g \<Rightarrow>
             map (\<lambda>x.
               \<lparr>t_tconst = c_tconst c, t_startYear = c_startYear c, t_genres = x,
                t_runtimeMinutes = map_option of_int (c_runtimeMinutes c),
                t_averageRating = (case m of None \<Rightarrow> None | Some r \<Rightarrow> averageRating r),
                t_numVotes = (case m of None \<Rightarrow> None | Some r \<Rightarrow> numVotes r)\<rparr>)
               (split_comma g))
         (case filter (\<lambda>r. r_tconst r = c_tconst c) title_ratings_df of
            [] \<Rightarrow> [None]
          | ms \<Rightarrow> map Some ms)))
       clean_title_basics_df) \<and>
   (distinct (map r_tconst title_ratings_df) \<longrightarrow>
      get_title_ratings clean_title_basics_df title_ratings_df =
        concat (map (\<lambda>c.
          case c_genres c of
            None \<Rightarrow> []
          | Some g \<Rightarrow>
              map (\<lambda>x.
                \<lparr>t_tconst = c_tconst c, t_startYear = c_startYear c, t_genres = x,
                 t_runtimeMinutes = map_option of_int (c_runtimeMinutes c),
                 t_averageRating =
                   (case find (\<lambda>r. r_tconst r = c_tconst c) title_ratings_df of
                      None \<Rightarrow> None
                    | Some r \<Rightarrow> averageRating r),
                 t_numVotes =
                   (case find (\<lambda>r. r_tconst r = c_tconst c) title_ratings_df of
                      None \<Rightarrow> None
                    | Some r \<Rightarrow> numVotes r)\<rparr>)
                (split_comma g))
          clean_title_basics_df))"
proof (intro conjI impI)
  show "get_title_ratings clean_title_basics_df title_ratings_df =
     concat (map (\<lambda>c.
       concat (map (\<lambda>m.
         case c_genres c of
           None \<Rightarrow> []
         | Some g \<Rightarrow>
             map (\<lambda>x.
               \<lparr>t_tconst = c_tconst c, t_startYear = c_startYear c, t_genres = x,
                t_runtimeMinutes = map_option of_int (c_runtimeMinutes c),
                t_averageRating = (case m of None \<Rightarrow> None | Some r \<Rightarrow> averageRating r),
                t_numVotes = (case m of None \<Rightarrow> None | Some r \<Rightarrow> numVotes r)\<rparr>)
               (split_comma g))
         (case filter (\<lambda>r. r_tconst r = c_tconst c) title_ratings_df of
            [] \<Rightarrow> [None]
          | ms \<Rightarrow> map Some ms)))
       clean_title_basics_df)"
    by (rule get_title_ratings_joined_rows)
next
  assume "distinct (map r_tconst title_ratings_df)"
  then show "get_title_ratings clean_title_basics_df title_ratings_df =
        concat (map (\<lambda>c.
          case c_genres c of
            None \<Rightarrow> []
          | Some g \<Rightarrow>
              map (\<lambda>x.
                \<lparr>t_tconst = c_tconst c, t_startYear = c_startYear c, t_genres = x,
                 t_runtimeMinutes = map_option of_int (c_runtimeMinutes c),
                 t_averageRating =
                   (case find (\<lambda>r. r_tconst r = c_tconst c) title_ratings_df of
                      None \<Rightarrow> None
                    | Some r \<Rightarrow> averageRating r),
                 t_numVotes =
                   (case find (\<lambda>r. r_tconst r = c_tconst c) title_ratings_df of
                      None \<Rightarrow> None
                    | Some r \<Rightarrow> numVotes r)\<rparr>)
                (split_comma g))
          clean_title_basics_df)"
    by (rule get_title_ratings_unique_ids [THEN conjunct2])
qed

theorem get_title_ratings_joins_and_explodes_witness:
  "distinct (map r_tconst
     [\<lparr>r_tconst = ''t1'', averageRating = Some (15 / 2), numVotes = Some 10\<rparr>,
      \<lparr>r_tconst = ''t9'', averageRating = Some 4, numVotes = Some 3\<rparr>]) \<and>
   get_title_ratings
     [\<lparr>c_tconst = ''t1'', c_startYear = 2015, c_genres = Some ''Drama,Comedy'',
       c_runtimeMinutes = Some 100\<rparr>,
      \<lparr>c_tconst = ''t2'', c_startYear = 2016, c_genres = None, c_runtimeMinutes = Some 90\<rparr>,
      \<lparr>c_tconst = ''t3'', c_startYear = 2017, c_genres = Some ''Action'',
       c_runtimeMinutes = None\<rparr>]
     [\<lparr>r_tconst = ''t1'', averageRating = Some (15 / 2), numVotes = Some 10\<rparr>,
      \<lparr>r_tconst = ''t9'', averageRating = Some 4, numVotes = Some 3\<rparr>] =
     [\<lparr>t_tconst = ''t1'', t_startYear = 2015, t_genres = ''Drama'',
       t_runtimeMinutes = Some 100, t_averageRating = Some (15 / 2), t_numVotes = Some 10\<rparr>,
      \<lparr>t_tconst = ''t1'', t_startYear = 2015, t_genres = ''Comedy'',
       t_runtimeMinutes = Some 100, t_averageRating = Some (15 / 2), t_numVotes = Some 10\<rparr>,
      \<lparr>t_tconst = ''t3'', t_startYear = 2017, t_genres = ''Action'',
       t_runtimeMinutes = None, t_averageRating = None, t_numVotes = None\<rparr>] \<and>
   get_title_ratings
     [\<lparr>c_tconst = ''t1'', c_startYear = 2015, c_genres = Some ''Drama'',
       c_runtimeMinutes = Some 100\<rparr>]
     [\<lparr>r_tconst = ''t1'', averageRating = Some (15 / 2), numVotes = Some 10\<rparr>,
      \<lparr>r_tconst = ''t1'', averageRating = Some 4, numVotes = Some 3\<rparr>] =
     [\<lparr>t_tconst = ''t1'', t_startYear = 2015, t_genres = ''Drama'',
       t_runtimeMinutes = Some 100, t_averageRating = Some (15 / 2), t_numVotes = Some 10\<rparr>,
      \<lparr>t_tconst = ''t1'', t_startYear = 2015, t_genres = ''Drama'',
       t_runtimeMinutes = Some 100, t_averageRating = Some 4, t_numVotes = Some 3\<rparr>]"
proof -
  let ?cs = "[\<lparr>c_tconst = ''t1'', c_startYear = 2015, c_genres = Some ''Drama,Comedy'',
       c_runtimeMinutes = Some 100\<rparr>,
      \<lparr>c_tconst = ''t2'', c_startYear = 2016, c_genres = None, c_runtimeMinutes = Some 90\<rparr>,
      \<lparr>c_tconst = ''t3'', c_startYear = 2017, c_genres = Some ''Action'',
       c_runtimeMinutes = None\<rparr>]"
  let ?rs = "[\<lparr>r_tconst = ''t1'', averageRating = Some (15 / 2), numVotes = Some 10\<rparr>,
      \<lparr>r_tconst = ''t9'', averageRating = Some 4, numVotes = Some 3\<rparr>]"
  have h: "distinct (map r_tconst ?rs)"
    by simp
  from get_title_ratings_joins_and_explodes [of ?cs ?rs] h
  have a: "get_title_ratings ?cs ?rs =
     [\<lparr>t_tconst = ''t1'', t_startYear = 2015, t_genres = ''Drama'',
       t_runtimeMinutes = Some 100, t_averageRating = Some (15 / 2), t_numVotes = Some 10\<rparr>,
      \<lparr>t_tconst = ''t1'', t_startYear = 2015, t_genres = ''Comedy'',
       t_runtimeMinutes = Some 100, t_averageRating = Some (15 / 2), t_numVotes = Some 10\<rparr>,
      \<lparr>t_tconst = ''t3'', t_startYear = 2017, t_genres = ''Action'',
       t_runtimeMinutes = None, t_averageRating = None, t_numVotes = None\<rparr>]"
    by simp
  from get_title_ratings_joins_and_explodes
         [of "[\<lparr>c_tconst = ''t1'', c_startYear = 2015, c_genres = Some ''Drama'',
                c_runtimeMinutes = Some 100\<rparr>]"
             "[\<lparr>r_tconst = ''t1'', averageRating = Some (15 / 2), numVotes = Some 10\<rparr>,
               \<lparr>r_tconst = ''t1'', averageRating = Some 4, numVotes = Some 3\<rparr>]"]
  have b: "get_title_ratings
     [\<lparr>c_tconst = ''t1'', c_startYear = 2015, c_genres = Some ''Drama'',
       c_runtimeMinutes = Some 100\<rparr>]
     [\<lparr>r_tconst = ''t1'', averageRating = Some (15 / 2), numVotes = Some 10\<rparr>,
      \<lparr>r_tconst = ''t1'', averageRating = Some 4, numVotes = Some 3\<rparr>] =
     [\<lparr>t_tconst = ''t1'', t_startYear = 2015, t_genres = ''Drama'',
       t_runtimeMinutes = Some 100, t_averageRating = Some (15 / 2), t_numVotes = Some 10\<rparr>,
      \<lparr>t_tconst = ''t1'', t_startYear = 2015, t_genres = ''Drama'',
       t_runtimeMinutes = Some 100, t_averageRating = Some 4, t_numVotes = Some 3\<rparr>]"
    by simp
  from h a b show ?thesis
    by blast
qed

section \<open>A crew row expands to genres times directors\<close>

lemma explode_crew_rows:
  "explode_crew df = concat (map (\<lambda>r. explode_crew [r]) df)"
  by (induction df) (simp_all add: explode_crew_def explode_def)

lemma explode_crew_row:
  "explode_crew [r] =
     concat (map (\<lambda>x. map (\<lambda>y. \<lparr>k_startYear = k_startYear r, k_genres = x, k_directors = y,
                                   k_writers = k_writers r\<rparr>)
                          (split_column (k_directors r)))
                 (split_column (k_genres r)))"
  by (simp add: explode_crew_def explode_def split_crew_def put_crew_genre_def [abs_def]
      put_crew_director_def [abs_def] comp_def)

lemma length_concat_const:
  "length (concat (map (\<lambda>x. map (f x) ys) xs)) = length xs * length ys"
  by (induction xs) simp_all

lemma crew_merged_notna:
  "r \<in> set (crew_merged cs ws) \<Longrightarrow> k_genres r \<noteq> None \<and> k_directors r \<noteq> None"
  by (auto simp: crew_merged_def TITLE_CREW_USED_COLUMNS_def)

text \<open>
  C6.  Every row that is left in \<open>get_crew_data_by_group\<close> after the rows with null genres
  or null directors are dropped has a genres string and a directors string, and expands to
  one row per pair of a genre and a director, genres outermost: as many rows as the product
  of the two counts, a count being the number of commas plus one.  The exploded table is the
  concatenation of these expansions.
\<close>

theorem crew_row_expands_to_cross_product:
  assumes "r \<in> set (crew_merged clean_title_basics_df title_crew_df)"
  shows "\<exists>g d. k_genres r = Some g \<and> k_directors r = Some d \<and>
           explode_crew [r] =
             concat (map (\<lambda>x. map (\<lambda>y. \<lparr>k_startYear = k_startYear r, k_genres = x,
                                           k_directors = y, k_writers = k_writers r\<rparr>)
                                  (split_comma d))
                         (split_comma g)) \<and>
           length (explode_crew [r]) =
             Suc (count_list g CHR '','') * Suc (count_list d CHR '','') \<and>
           crew_exploded clean_title_basics_df title_crew_df =
             concat (map (\<lambda>r. explode_crew [r])
                       (crew_merged clean_title_basics_df title_crew_df))"
proof -
  from crew_merged_notna [OF assms] obtain g d
    where g: "k_genres r = Some g" and d: "k_directors r = Some d"
    by auto
  have e: "explode_crew [r] =
             concat (map (\<lambda>x. map (\<lambda>y. \<lparr>k_startYear = k_startYear r, k_genres = x,
                                           k_directors = y, k_writers = k_writers r\<rparr>)
                                  (split_comma d))
                         (split_comma g))"
    by (simp add: explode_crew_row g d split_column_def)
  have "length (explode_crew [r]) = Suc (count_list g CHR '','') * Suc (count_list d CHR '','')"
    unfolding e length_concat_const by (simp add: length_split_comma)
  moreover have "crew_exploded clean_title_basics_df title_crew_df =
             concat (map (\<lambda>r. explode_crew [r])
                       (crew_merged clean_title_basics_df title_crew_df))"
    unfolding crew_exploded_def by (rule explode_crew_rows)
  ultimately show ?thesis using g d e by blast
qed


theorem crew_row_expands_to_cross_product_witness:
  "\<lparr>k_startYear = 2015, k_genres = Some ''Drama,Comedy'', k_directors = Some ''d1,d2'',
     k_writers = Some ''w1''\<rparr>
   \<in> set (crew_merged
     [\<lparr>c_tconst = ''t1'', c_startYear = 2015, c_genres = Some ''Drama,Comedy'',
       c_runtimeMinutes = Some 100\<rparr>]
     [\<lparr>w_tconst = ''t1'', directors = Some ''d1,d2'', writers = Some ''w1''\<rparr>]) \<and>
   explode_crew
     [\<lparr>k_startYear = 2015, k_genres = Some ''Drama,Comedy'', k_directors = Some ''d1,d2'',
       k_writers = Some ''w1''\<rparr>] =
     [\<lparr>k_startYear = 2015, k_genres = ''Drama'', k_directors = ''d1'', k_writers = Some ''w1''\<rparr>,
      \<lparr>k_startYear = 2015, k_genres = ''Drama'', k_directors = ''d2'', k_writers = Some ''w1''\<rparr>,
      \<lparr>k_startYear = 2015, k_genres = ''Comedy'', k_directors = ''d1'', k_writers = Some ''w1''\<rparr>,
      \<lparr>k_startYear = 2015, k_genres = ''Comedy'', k_directors = ''d2'', k_writers = Some ''w1''\<rparr>] \<and>
   length (explode_crew
     [\<lparr>k_startYear = 2015, k_genres = Some ''Drama,Comedy'', k_directors = Some ''d1,d2'',
       k_writers = Some ''w1''\<rparr>]) = 4"
proof -
  let ?r = "\<lparr>k_startYear = 2015, k_genres = Some ''Drama,Comedy'', k_directors = Some ''d1,d2'',
     k_writers = Some ''w1''\<rparr>"
  have m: "?r \<in> set (crew_merged
     [\<lparr>c_tconst = ''t1'', c_startYear = 2015, c_genres = Some ''Drama,Comedy'',
       c_runtimeMinutes = Some 100\<rparr>]
     [\<lparr>w_tconst = ''t1'', directors = Some ''d1,d2'', writers = Some ''w1''\<rparr>])"
    by code_simp
  from crew_row_expands_to_cross_product [OF m] obtain g d
    where gd: "k_genres ?r = Some g" "k_directors ?r = Some d"
      and e: "explode_crew [?r] =
             concat (map (\<lambda>x. map (\<lambda>y. \<lparr>k_startYear = k_startYear ?r, k_genres = x,
                                           k_directors = y, k_writers = k_writers ?r\<rparr>)
                                  (split_comma d))
                         (split_comma g))"
      and l: "length (explode_crew [?r]) =
             Suc (count_list g CHR '','') * Suc (count_list d CHR '','')"
    by blast
  from gd have g: "g = ''Drama,Comedy''" and d: "d = ''d1,d2''"
    by simp_all
  from e l m show ?thesis
    unfolding g d by simp
qed

section \<open>The mode that is handed to the name resolver\<close>

lemma agg_mode_tie: "length (mode xs) \<noteq> 1 \<Longrightarrow> agg_mode xs = Ndarray (mode xs)"
  by (cases "mode xs" rule: remdups_adj.cases) (simp_all add: agg_mode_def)

lemma agg_mode_single: "mode xs = [x] \<Longrightarrow> agg_mode xs = Scalar x"
  by (simp add: agg_mode_def)

lemma agg_mode_mset: "mset xs = mset ys \<Longrightarrow> agg_mode xs = agg_mode ys"
  by (simp add: agg_mode_def mode_mset [of xs ys])

lemma groupby_keys_mset:
  assumes "mset rows' = mset rows"
  shows "sort (remdups (map key rows')) = sort (remdups (map key rows))"
proof -
  from assms have "set rows' = set rows" by (rule mset_eq_setD)
  then have "sorted_list_of_set (set (map key rows')) = sorted_list_of_set (set (map key rows))"
    by simp
  then show ?thesis by (simp only: sorted_list_of_set_sort_remdups)
qed

lemma top_director_ids_mset:
  assumes "mset df' = mset df"
  shows "top_director_ids df' = top_director_ids df"
proof -
  have "mset (map k_directors (filter (\<lambda>r. crew_key r = k) df')) =
        mset (map k_directors (filter (\<lambda>r. crew_key r = k) df))" for k
    using assms by simp
  then have "agg_mode (map k_directors (filter (\<lambda>r. crew_key r = k) df')) =
             agg_mode (map k_directors (filter (\<lambda>r. crew_key r = k) df))" for k
    by (rule agg_mode_mset)
  then show ?thesis
    by (simp add: top_director_ids_def groupby_def comp_def groupby_keys_mset [OF assms])
qed

section \<open>An unknown top director aborts the run\<close>

lemma id2name_loop_error:
  "id2name_loop xs d acc = Inl e \<Longrightarrow> \<exists>j. e = KeyError j \<and> d j = None"
  by (induction xs arbitrary: acc) (auto split: option.splits)

lemma id2name_loop_missing:
  "i \<in> set xs \<Longrightarrow> d i = None \<Longrightarrow> \<exists>e. id2name_loop xs d acc = Inl e"
  by (induction xs arbitrary: acc) (auto split: option.splits)

lemma director_id2name_error:
  "director_id2name x d = Inl e \<Longrightarrow> \<exists>j. e = KeyError j \<and> d j = None"
  by (cases x) (auto simp: director_id2name_def split: option.splits sum.splits
      dest: id2name_loop_error)

lemma director_id2name_missing:
  assumes "i \<in> set (mode xs)" and "d i = None"
  shows "\<exists>e. director_id2name (agg_mode xs) d = Inl e"
proof (cases "length (mode xs) = 1")
  case True
  with assms(1) have "mode xs = [i]"
    by (cases "mode xs") auto
  then show ?thesis
    using assms(2) by (simp add: agg_mode_def director_id2name_def)
next
  case False
  from id2name_loop_missing [of i "mode xs" d "[]"] assms obtain e
    where "id2name_loop (mode xs) d [] = Inl e" by blast
  then show ?thesis
    by (simp add: agg_mode_tie [OF False] director_id2name_def)
qed

lemma apply_director_id2name_error:
  "apply_director_id2name gs d = Inl e \<Longrightarrow> \<exists>j. e = KeyError j \<and> d j = None"
  by (induction gs arbitrary: e)
     (auto split: sum.splits dest: director_id2name_error)

lemma apply_director_id2name_missing:
  "g \<in> set gs \<Longrightarrow> director_id2name (snd g) d = Inl e \<Longrightarrow>
   \<exists>e'. apply_director_id2name gs d = Inl e'"
  by (induction gs) (auto split: sum.splits)

lemma get_crew_data_by_group_missing:
  assumes "(k, rows) \<in> set (groupby crew_key (crew_exploded cs ws))"
    and "i \<in> set (mode (map k_directors rows))"
    and "d i = None"
  shows "\<exists>j. d j = None \<and> get_crew_data_by_group cs ws d = Inl (KeyError j)"
proof -
  let ?gs = "top_director_ids (crew_exploded cs ws)"
  from assms(1) have "(k, agg_mode (map k_directors rows)) \<in> set ?gs"
    by (force simp: top_director_ids_def)
  moreover from director_id2name_missing [of i "map k_directors rows" d] assms(2,3) obtain e
    where "director_id2name (agg_mode (map k_directors rows)) d = Inl e" by blast
  ultimately obtain e' where e': "apply_director_id2name ?gs d = Inl e'"
    using apply_director_id2name_missing [of "(k, agg_mode (map k_directors rows))" ?gs d e]
    by auto
  from apply_director_id2name_error [OF e'] obtain j where "e' = KeyError j" "d j = None"
    by blast
  with e' show ?thesis
    by (auto simp: get_crew_data_by_group_def Let_def)
qed

text \<open>
  C7.  When an id in the mode of the directors of some group has no entry in the lookup built
  from the name source, \<open>get_crew_data_by_group\<close> ends with a KeyError for an id that the
  lookup lacks, \<open>run_pipeline\<close> ends with the same error, and the output file is left as
  it was: nothing is written.
\<close>

theorem unknown_top_director_aborts_run:
  assumes "(k, rows) \<in> set (groupby crew_key
             (crew_exploded (process_title_basics_df (TITLE_BASICS src)) (TITLE_CREW src)))"
    and "i \<in> set (mode (map k_directors rows))"
    and "get_id2name_dict (NAME_BASICS src) i = None"
  shows "\<exists>j. get_id2name_dict (NAME_BASICS src) j = None \<and>
             get_crew_data_by_group (process_title_basics_df (TITLE_BASICS src))
               (TITLE_CREW src) (get_id2name_dict (NAME_BASICS src)) = Inl (KeyError j) \<and>
             run_pipeline py_round src file = (Inl (KeyError j), file)"
proof -
  from get_crew_data_by_group_missing
         [of k rows "process_title_basics_df (TITLE_BASICS src)" "TITLE_CREW src" i
            "get_id2name_dict (NAME_BASICS src)"] assms
  obtain j
    where j: "get_id2name_dict (NAME_BASICS src) j = None"
      and e: "get_crew_data_by_group (process_title_basics_df (TITLE_BASICS src))
               (TITLE_CREW src) (get_id2name_dict (NAME_BASICS src)) = Inl (KeyError j)"
    by blast
  from e have "run_pipeline py_round src file = (Inl (KeyError j), file)"
    by (simp add: run_pipeline_def run_pipeline_output_def Let_def)
  with j e show ?thesis by blast
qed


text \<open>
  An instance: the one director \<open>nm2\<close> has no name.  The rounding function of the instance
  is the identity; the run ends before any value is rounded.
\<close>

theorem unknown_top_director_aborts_run_witness:
  "\<exists>j. run_pipeline (\<lambda>x n. x)
     \<lparr>NAME_BASICS = [\<lparr>nconst = ''nm1'', primaryName = ''Alice''\<rparr>],
      TITLE_BASICS = [\<lparr>tconst = ''t1'', titleType = Some ''movie'', startYear = Some 2015,
                       genres = Some ''Drama'', runtimeMinutes = Some 100\<rparr>],
      TITLE_RATINGS = [\<lparr>r_tconst = ''t1'', averageRating = Some (15 / 2),
                        numVotes = Some 10\<rparr>],
      TITLE_CREW = [\<lparr>w_tconst = ''t1'', directors = Some ''nm2'', writers = None\<rparr>]\<rparr>
     None = (Inl (KeyError j), None)"
proof -
  let ?src = "\<lparr>NAME_BASICS = [\<lparr>nconst = ''nm1'', primaryName = ''Alice''\<rparr>],
      TITLE_BASICS = [\<lparr>tconst = ''t1'', titleType = Some ''movie'', startYear = Some 2015,
                       genres = Some ''Drama'', runtimeMinutes = Some 100\<rparr>],
      TITLE_RATINGS = [\<lparr>r_tconst = ''t1'', averageRating = Some (15 / 2),
                        numVotes = Some 10\<rparr>],
      TITLE_CREW = [\<lparr>w_tconst = ''t1'', directors = Some ''nm2'', writers = None\<rparr>]\<rparr>"
  let ?rows = "[\<lparr>k_startYear = 2015, k_genres = ''Drama'', k_directors = ''nm2'',
                 k_writers = None\<rparr>]"
  have g: "((2015, ''Drama''), ?rows) \<in> set (groupby crew_key
             (crew_exploded (process_title_basics_df (TITLE_BASICS ?src)) (TITLE_CREW ?src)))"
    by code_simp
  have i: "''nm2'' \<in> set (mode (map k_directors ?rows))"
    by code_simp
  have n: "get_id2name_dict (NAME_BASICS ?src) ''nm2'' = None"
    by (simp add: get_id2name_dict_def)
  from unknown_top_director_aborts_run [OF g i n, of "\<lambda>x n. x" None] show ?thesis
    by blast
qed

section \<open>The numWriters column repeats numVotes\<close>

lemma cast_columns_numWriters:
  "cast_columns output = Inr result \<Longrightarrow> map numWriters result = map out_numVotes result"
  by (auto simp: cast_columns_def cast_row_def Let_def split: if_splits)

lemma run_pipeline_output_cast:
  assumes "run_pipeline_output py_round src = Inr result"
  shows "\<exists>output. cast_columns output = Inr result"
proof (cases "get_crew_data_by_group (process_title_basics_df (TITLE_BASICS src))
                (TITLE_CREW src) (get_id2name_dict (NAME_BASICS src))")
  case (Inl e)
  with assms show ?thesis
    by (simp add: run_pipeline_output_def Let_def)
next
  case (Inr p)
  obtain n_directors top_directors n_writers where "p = (n_directors, top_directors, n_writers)"
    by (cases p)
  with Inr assms show ?thesis
    by (simp add: run_pipeline_output_def Let_def) blast
qed

lemma cast_columns_map:
  "cast_columns rows =
     (if None \<in> set (map m_numVotes rows) then Inl ValueError else Inr (map cast_row rows))"
proof -
  have "list_ex (\<lambda>r. m_numVotes r = None) rows \<longleftrightarrow> None \<in> set (map m_numVotes rows)"
    by (induction rows) auto
  then show ?thesis
    by (simp only: cast_columns_def)
qed

lemma cast_row_without_numWriters:
  assumes "apfst (apfst fst) p' = apfst (apfst fst) p"
  shows "m_numVotes (round_output py_round (rename_columns p')) =
           m_numVotes (round_output py_round (rename_columns p)) \<and>
         cast_row (round_output py_round (rename_columns p')) = cast_row (round_output py_round (rename_columns p))"
proof -
  obtain y w d t where p: "p = (((y, w), d), t)"
    by (metis surj_pair)
  obtain y' w' d' t' where p': "p' = (((y', w'), d'), t')"
    by (metis surj_pair)
  from assms have "y' = y" "d' = d" "t' = t"
    by (simp_all add: p p')
  then show ?thesis
    by (simp add: p p' rename_columns_def round_output_def cast_row_def)
qed

lemma cast_columns_without_numWriters:
  assumes "map (apfst (apfst fst)) rows' = map (apfst (apfst fst)) rows"
  shows "cast_columns (map (round_output py_round) (map rename_columns rows')) =
         cast_columns (map (round_output py_round) (map rename_columns rows))"
proof -
  have "map (\<lambda>p. m_numVotes (round_output py_round (rename_columns p))) rows' =
        map (\<lambda>p. m_numVotes (round_output py_round (rename_columns p))) rows"
    using assms by (rule map_cong_through) (rule cast_row_without_numWriters [THEN conjunct1])
  moreover have "map (\<lambda>p. cast_row (round_output py_round (rename_columns p))) rows' =
        map (\<lambda>p. cast_row (round_output py_round (rename_columns p))) rows"
    using assms by (rule map_cong_through) (rule cast_row_without_numWriters [THEN conjunct2])
  ultimately show ?thesis
    by (simp only: cast_columns_map map_map comp_def)
qed

lemma merge_output_without_numWriters:
  assumes "map fst n_writers' = map fst n_writers"
  shows "cast_columns (map (round_output py_round) (merge_output yr n_writers' nd td)) =
         cast_columns (map (round_output py_round) (merge_output yr n_writers nd td))"
proof -
  let ?o1 = "\<lambda>nw. merge_left resume_key fst yr nw"
  let ?o2 = "\<lambda>nw. merge_left (\<lambda>p. resume_key (fst p)) fst (?o1 nw) nd"
  let ?o3 = "\<lambda>nw. merge_left (\<lambda>p. resume_key (fst (fst p))) fst (?o2 nw) td"
  have s2: "map (apfst fst) (?o2 nw) = merge_left resume_key fst (map fst (?o1 nw)) nd" for nw
    by (rule merge_left_apfst)
  have "map (apfst (apfst fst)) (?o3 nw) =
        merge_left (\<lambda>q. resume_key (fst q)) fst (map (apfst fst) (?o2 nw)) td" for nw
    using merge_left_apfst [of "apfst fst" "\<lambda>q. resume_key (fst q)" fst "?o2 nw" td]
    by simp
  then have s3: "map (apfst (apfst fst)) (?o3 nw) =
        merge_left (\<lambda>q. resume_key (fst q)) fst
          (merge_left resume_key fst (map fst (?o1 nw)) nd) td" for nw
    by (simp only: s2)
  have "map fst (?o1 n_writers') = map fst (?o1 n_writers)"
    using assms by (rule merge_left_right_keys)
  then have "map (apfst (apfst fst)) (?o3 n_writers') = map (apfst (apfst fst)) (?o3 n_writers)"
    by (simp only: s3)
  then show ?thesis
    unfolding merge_output_def Let_def by (rule cast_columns_without_numWriters)
qed

text \<open>
  C2.  In every table that \<open>run_pipeline\<close> hands to the writer, the numWriters column is
  the numVotes column, cast to int.  The counts of distinct writers play no part: two tables
  of writer counts over the same groups give the same output.
\<close>

theorem numWriters_is_numVotes_cast:
  "(run_pipeline_output py_round src = Inr result \<longrightarrow> map numWriters result = map out_numVotes result) \<and>
   (map fst n_writers' = map fst n_writers \<longrightarrow>
      cast_columns (map (round_output py_round) (merge_output year_genre_resume n_writers' n_directors top_directors)) =
      cast_columns (map (round_output py_round) (merge_output year_genre_resume n_writers n_directors top_directors)))"
proof (intro conjI impI)
  assume "run_pipeline_output py_round src = Inr result"
  then obtain merged where "cast_columns merged = Inr result"
    using run_pipeline_output_cast by blast
  then show "map numWriters result = map out_numVotes result"
    by (rule cast_columns_numWriters)
next
  assume "map fst n_writers' = map fst n_writers"
  then show "cast_columns (map (round_output py_round) (merge_output year_genre_resume n_writers' n_directors top_directors)) =
      cast_columns (map (round_output py_round) (merge_output year_genre_resume n_writers n_directors top_directors))"
    by (rule merge_output_without_numWriters)
qed

text \<open>
  An instance: one group with two distinct writer strings and 10 votes.  The rounding
  function of the instance is the identity: the two values that reach it, 95.5 and 7.5, are
  doubles with one decimal, which \<open>round(x, 2)\<close> returns unchanged.
\<close>

theorem numWriters_is_numVotes_cast_witness:
  "n_writers_of (crew_exploded (process_title_basics_df (TITLE_BASICS
     \<lparr>NAME_BASICS = [\<lparr>nconst = ''nm1'', primaryName = ''Alice''\<rparr>],
      TITLE_BASICS = [\<lparr>tconst = ''t1'', titleType = Some ''movie'', startYear = Some 2015,
                       genres = Some ''Drama'', runtimeMinutes = Some 100\<rparr>,
                      \<lparr>tconst = ''t2'', titleType = Some ''movie'', startYear = Some 2015,
                       genres = Some ''Drama'', runtimeMinutes = Some 91\<rparr>],
      TITLE_RATINGS = [\<lparr>r_tconst = ''t1'', averageRating = Some (15 / 2),
                        numVotes = Some 10\<rparr>],
      TITLE_CREW = [\<lparr>w_tconst = ''t1'', directors = Some ''nm1'',
                     writers = Some ''nm7,nm8''\<rparr>,
                    \<lparr>w_tconst = ''t2'', directors = Some ''nm1'', writers = Some ''nm9''\<rparr>]\<rparr>))
     (TITLE_CREW
     \<lparr>NAME_BASICS = [\<lparr>nconst = ''nm1'', primaryName = ''Alice''\<rparr>],
      TITLE_BASICS = [\<lparr>tconst = ''t1'', titleType = Some ''movie'', startYear = Some 2015,
                       genres = Some ''Drama'', runtimeMinutes = Some 100\<rparr>,
                      \<lparr>tconst = ''t2'', titleType = Some ''movie'', startYear = Some 2015,
                       genres = Some ''Drama'', runtimeMinutes = Some 91\<rparr>],
      TITLE_RATINGS = [\<lparr>r_tconst = ''t1'', averageRating = Some (15 / 2),
                        numVotes = Some 10\<rparr>],
      TITLE_CREW = [\<lparr>w_tconst = ''t1'', directors = Some ''nm1'',
                     writers = Some ''nm7,nm8''\<rparr>,
                    \<lparr>w_tconst = ''t2'', directors = Some ''nm1'', writers = Some ''nm9''\<rparr>]\<rparr>)) = [((2015, ''Drama''), 2)] \<and>
   run_pipeline_output (\<lambda>x n. x)
     \<lparr>NAME_BASICS = [\<lparr>nconst = ''nm1'', primaryName = ''Alice''\<rparr>],
      TITLE_BASICS = [\<lparr>tconst = ''t1'', titleType = Some ''movie'', startYear = Some 2015,
                       genres = Some ''Drama'', runtimeMinutes = Some 100\<rparr>,
                      \<lparr>tconst = ''t2'', titleType = Some ''movie'', startYear = Some 2015,
                       genres = Some ''Drama'', runtimeMinutes = Some 91\<rparr>],
      TITLE_RATINGS = [\<lparr>r_tconst = ''t1'', averageRating = Some (15 / 2),
                        numVotes = Some 10\<rparr>],
      TITLE_CREW = [\<lparr>w_tconst = ''t1'', directors = Some ''nm1'',
                     writers = Some ''nm7,nm8''\<rparr>,
                    \<lparr>w_tconst = ''t2'', directors = Some ''nm1'', writers = Some ''nm9''\<rparr>]\<rparr> =
   Inr [\<lparr>out_startYear = 2015, out_genres = ''Drama'',
       out_runtimeMinutes = Some (191 / 2), out_averageRating = Some (15 / 2),
       out_numVotes = 10, numWriters = 10, numDirectors = 1,
       topDirectors = Some ''Alice''\<rparr>] \<and>
   map numWriters
     [\<lparr>out_startYear = 2015, out_genres = ''Drama'',
       out_runtimeMinutes = Some (191 / 2), out_averageRating = Some (15 / 2),
       out_numVotes = 10, numWriters = 10, numDirectors = 1,
       topDirectors = Some ''Alice''\<rparr>] = [10] \<and>
   cast_columns (map (round_output (\<lambda>x n. x)) (merge_output
     [\<lparr>y_startYear = 2015, y_genres = ''Drama'', y_runtimeMinutes = Some (191 / 2),
       y_averageRating = Some (15 / 2), y_numVotes = Some 10\<rparr>]
     [((2015, ''Drama''), 7)] [((2015, ''Drama''), 1)] [((2015, ''Drama''), ''Alice'')])) =
   cast_columns (map (round_output (\<lambda>x n. x)) (merge_output
     [\<lparr>y_startYear = 2015, y_genres = ''Drama'', y_runtimeMinutes = Some (191 / 2),
       y_averageRating = Some (15 / 2), y_numVotes = Some 10\<rparr>]
     [((2015, ''Drama''), 2)] [((2015, ''Drama''), 1)] [((2015, ''Drama''), ''Alice'')]))"
proof -
  let ?src = "\<lparr>NAME_BASICS = [\<lparr>nconst = ''nm1'', primaryName = ''Alice''\<rparr>],
      TITLE_BASICS = [\<lparr>tconst = ''t1'', titleType = Some ''movie'', startYear = Some 2015,
                       genres = Some ''Drama'', runtimeMinutes = Some 100\<rparr>,
                      \<lparr>tconst = ''t2'', titleType = Some ''movie'', startYear = Some 2015,
                       genres = Some ''Drama'', runtimeMinutes = Some 91\<rparr>],
      TITLE_RATINGS = [\<lparr>r_tconst = ''t1'', averageRating = Some (15 / 2),
                        numVotes = Some 10\<rparr>],
      TITLE_CREW = [\<lparr>w_tconst = ''t1'', directors = Some ''nm1'',
                     writers = Some ''nm7,nm8''\<rparr>,
                    \<lparr>w_tconst = ''t2'', directors = Some ''nm1'', writers = Some ''nm9''\<rparr>]\<rparr>"
  let ?result = "[\<lparr>out_startYear = 2015, out_genres = ''Drama'',
       out_runtimeMinutes = Some (191 / 2), out_averageRating = Some (15 / 2),
       out_numVotes = 10, numWriters = 10, numDirectors = 1,
       topDirectors = Some ''Alice''\<rparr>]"
  have w: "n_writers_of (crew_exploded (process_title_basics_df (TITLE_BASICS ?src))
             (TITLE_CREW ?src)) = [((2015, ''Drama''), 2)]"
    by code_simp
  have r: "run_pipeline_output (\<lambda>x n. x) ?src = Inr ?result"
    by code_simp
  from numWriters_is_numVotes_cast [of "\<lambda>x n. x" ?src ?result] r
  have "map numWriters ?result = map out_numVotes ?result"
    by blast
  then have "map numWriters ?result = [10]"
    by simp
  have k: "map fst [((2015::int, ''Drama''), 7::nat)] = map fst [((2015::int, ''Drama''), 2::nat)]"
    by simp
  from numWriters_is_numVotes_cast
         [of "\<lambda>x n. x" _ _ "[((2015, ''Drama''), 7)]" "[((2015, ''Drama''), 2)]"
            "[\<lparr>y_startYear = 2015, y_genres = ''Drama'', y_runtimeMinutes = Some (191 / 2),
               y_averageRating = Some (15 / 2), y_numVotes = Some 10\<rparr>]"
            "[((2015, ''Drama''), 1)]" "[((2015, ''Drama''), ''Alice'')]"] k
  have e: "cast_columns (map (round_output (\<lambda>x n. x)) (merge_output
     [\<lparr>y_startYear = 2015, y_genres = ''Drama'', y_runtimeMinutes = Some (191 / 2),
       y_averageRating = Some (15 / 2), y_numVotes = Some 10\<rparr>]
     [((2015, ''Drama''), 7)] [((2015, ''Drama''), 1)] [((2015, ''Drama''), ''Alice'')])) =
   cast_columns (map (round_output (\<lambda>x n. x)) (merge_output
     [\<lparr>y_startYear = 2015, y_genres = ''Drama'', y_runtimeMinutes = Some (191 / 2),
       y_averageRating = Some (15 / 2), y_numVotes = Some 10\<rparr>]
     [((2015, ''Drama''), 2)] [((2015, ''Drama''), 1)] [((2015, ''Drama''), ''Alice'')]))"
    by blast
  from w r \<open>map numWriters ?result = [10]\<close> e show ?thesis
    by blast
qed

section \<open>Tied top directors are listed in ascending order of their ids\<close>

lemma mode_most_frequent_sorted:
  "mode xs = sorted_list_of_set {x \<in> set xs. \<forall>y. count_list xs y \<le> count_list xs x}"
proof -
  have "{x \<in> set xs. count_list xs x = max_count xs} =
        {x \<in> set xs. \<forall>y. count_list xs y \<le> count_list xs x}"
    using set_mode [of xs] set_mode_most_frequent [of xs] by simp
  then show ?thesis
    by (simp only: mode_sorted_list_of_set)
qed

lemma director_id2name_agg_mode:
  assumes "director_id2name (agg_mode xs) d = Inr names"
  shows "names = join_names (map (\<lambda>i. the (d i)) (mode xs))"
proof -
  have dom: "set (mode xs) \<subseteq> dom d"
  proof
    fix i assume "i \<in> set (mode xs)"
    show "i \<in> dom d"
    proof (rule ccontr)
      assume "i \<notin> dom d"
      then have "d i = None" by (simp add: domIff)
      with \<open>i \<in> set (mode xs)\<close> director_id2name_missing [of i xs d] assms
      show False by auto
    qed
  qed
  show ?thesis
  proof (cases "length (mode xs) = 1")
    case True
    then obtain i where i: "mode xs = [i]"
      by (cases "mode xs") auto
    with dom obtain n where "d i = Some n" by auto
    with i assms show ?thesis
      by (simp add: agg_mode_def director_id2name_def)
  next
    case False
    with assms director_id2name_Ndarray [OF dom] show ?thesis
      by (simp add: agg_mode_tie)
  qed
qed

lemma apply_director_id2name_names:
  "apply_director_id2name (map (\<lambda>g. (fst g, agg_mode (col g))) gs) d = Inr done \<Longrightarrow>
   done = map (\<lambda>g. (fst g, join_names (map (\<lambda>i. the (d i)) (mode (col g))))) gs"
proof (induction gs arbitrary: "done")
  case Nil
  then show ?case by simp
next
  case (Cons g gs)
  from Cons.prems obtain names rest
    where n: "director_id2name (agg_mode (col g)) d = Inr names"
      and r: "apply_director_id2name (map (\<lambda>g. (fst g, agg_mode (col g))) gs) d = Inr rest"
      and d: "done = (fst g, names) # rest"
    by (auto split: sum.splits)
  from n have "names = join_names (map (\<lambda>i. the (d i)) (mode (col g)))"
    by (rule director_id2name_agg_mode)
  moreover from r have "rest = map (\<lambda>g. (fst g, join_names (map (\<lambda>i. the (d i)) (mode (col g))))) gs"
    by (rule Cons.IH)
  ultimately show ?case
    by (simp add: d)
qed

lemma get_crew_data_by_group_top_directors:
  assumes "get_crew_data_by_group cs ws d = Inr (n_directors, top_directors, n_writers)"
  shows "top_directors =
           map (\<lambda>g. (fst g, join_names (map (\<lambda>i. the (d i)) (mode (map k_directors (snd g))))))
             (groupby crew_key (crew_exploded cs ws))"
proof -
  from assms have "apply_director_id2name (top_director_ids (crew_exploded cs ws)) d =
                     Inr top_directors"
    by (auto simp: get_crew_data_by_group_def Let_def split: sum.splits)
  then show ?thesis
    unfolding top_director_ids_def
    by (rule apply_director_id2name_names)
qed


lemma mset_concat_map:
  "mset (concat (map f xs)) = sum_mset (image_mset (\<lambda>x. mset (f x)) (mset xs))"
  by (induction xs) simp_all

lemma mset_concat_map_cong:
  assumes "mset xs' = mset xs" and "\<And>x. mset (f' x) = mset (f x)"
  shows "mset (concat (map f' xs')) = mset (concat (map f xs))"
  by (simp add: mset_concat_map assms)

lemma mset_matches:
  assumes "mset rs' = mset rs"
  shows "mset (case filter P rs' of [] \<Rightarrow> [a] | ms \<Rightarrow> map g ms) =
         mset (case filter P rs of [] \<Rightarrow> [a] | ms \<Rightarrow> map g ms)"
proof -
  from assms have f: "mset (filter P rs') = mset (filter P rs)"
    by simp
  show ?thesis
  proof (cases "filter P rs")
    case Nil
    with f have "filter P rs' = []" by simp
    with Nil show ?thesis by simp
  next
    case (Cons r ms)
    with f have "filter P rs' \<noteq> []"
      by (metis mset_zero_iff list.distinct(1))
    then obtain r' ms' where c': "filter P rs' = r' # ms'"
      by (cases "filter P rs'") auto
    have "mset (map g (filter P rs')) = mset (map g (filter P rs))"
      using f by (metis mset_map)
    with Cons c' show ?thesis by simp
  qed
qed

lemma mset_merge_left:
  assumes "mset ls' = mset ls" and "mset rs' = mset rs"
  shows "mset (merge_left kl kr ls' rs') = mset (merge_left kl kr ls rs)"
  unfolding merge_left_def
  by (rule mset_concat_map_cong [OF assms(1)]) (rule mset_matches [OF assms(2)])

lemma mset_explode:
  "mset rows' = mset rows \<Longrightarrow> mset (explode col put rows') = mset (explode col put rows)"
  unfolding explode_def by (rule mset_concat_map_cong) simp_all

lemma mset_crew_exploded:
  assumes "mset cs' = mset cs" and "mset ws' = mset ws"
  shows "mset (crew_exploded cs' ws') = mset (crew_exploded cs ws)"
proof -
  have "mset (crew_merged cs' ws') = mset (crew_merged cs ws)"
    unfolding crew_merged_def Let_def
    using mset_merge_left [OF assms, of c_tconst w_tconst] by simp
  then have "mset (map split_crew (crew_merged cs' ws')) = mset (map split_crew (crew_merged cs ws))"
    by simp
  then show ?thesis
    unfolding crew_exploded_def explode_crew_def Let_def
    by (intro mset_explode)
qed

lemma nunique_set: "set xs' = set xs \<Longrightarrow> nunique xs' = nunique xs"
proof -
  assume "set xs' = set xs"
  then have "set (dropna xs') = set (dropna xs)"
    by (simp add: dropna_def List.map_filter_def)
  then show ?thesis
    by (simp add: nunique_def length_remdups_card_conv)
qed

lemma n_directors_of_mset:
  assumes "mset df' = mset df"
  shows "n_directors_of df' = n_directors_of df"
proof -
  from assms have "set df' = set df" by (rule mset_eq_setD)
  then have "nunique (map (\<lambda>r. Some (k_directors r)) (filter (\<lambda>r. crew_key r = k) df')) =
             nunique (map (\<lambda>r. Some (k_directors r)) (filter (\<lambda>r. crew_key r = k) df))" for k
    by (intro nunique_set) simp
  then show ?thesis
    by (simp add: n_directors_of_def groupby_def comp_def groupby_keys_mset [OF assms])
qed

lemma n_writers_of_mset:
  assumes "mset df' = mset df"
  shows "n_writers_of df' = n_writers_of df"
proof -
  from assms have "set df' = set df" by (rule mset_eq_setD)
  then have "nunique (map k_writers (filter (\<lambda>r. crew_key r = k) df')) =
             nunique (map k_writers (filter (\<lambda>r. crew_key r = k) df))" for k
    by (intro nunique_set) simp
  then show ?thesis
    by (simp add: n_writers_of_def groupby_def comp_def groupby_keys_mset [OF assms])
qed

lemma get_crew_data_by_group_mset:
  assumes "mset cs' = mset cs" and "mset ws' = mset ws"
  shows "get_crew_data_by_group cs' ws' d = get_crew_data_by_group cs ws d"
proof -
  have m: "mset (crew_exploded cs' ws') = mset (crew_exploded cs ws)"
    using assms by (rule mset_crew_exploded)
  show ?thesis
    by (simp only: get_crew_data_by_group_def Let_def n_directors_of_mset [OF m]
        n_writers_of_mset [OF m] top_director_ids_mset [OF m])
qed

text \<open>
  C10.  When \<open>get_crew_data_by_group\<close> returns, the top directors of every group are the
  names of the director ids that occur most often among the rows of the group, taken in
  ascending order of the ids and joined by \<open>"; "\<close>; with one such id this is its name, with
  several tied ids it lists all of them in that order.  The order of the rows plays no
  part: the same rows of the two input tables in any other order give the same result.
  The ascending order is the one in which \<open>Series.mode\<close> returns its values.
\<close>

theorem tied_top_directors_in_ascending_id_order:
  assumes "get_crew_data_by_group clean_title_basics_df title_crew_df director_id2name_dict =
             Inr (n_directors, top_directors, n_writers)"
  shows "top_directors =
           map (\<lambda>g. let ds = map k_directors (snd g) in
                  (fst g,
                   join_names (map (\<lambda>i. the (director_id2name_dict i))
                     (sorted_list_of_set
                        {x \<in> set ds. \<forall>y. count_list ds y \<le> count_list ds x}))))
             (groupby crew_key (crew_exploded clean_title_basics_df title_crew_df)) \<and>
         (mset clean_title_basics_df' = mset clean_title_basics_df \<and>
          mset title_crew_df' = mset title_crew_df \<longrightarrow>
            get_crew_data_by_group clean_title_basics_df' title_crew_df' director_id2name_dict =
              Inr (n_directors, top_directors, n_writers))"
proof (intro conjI impI)
  show "top_directors =
           map (\<lambda>g. let ds = map k_directors (snd g) in
                  (fst g,
                   join_names (map (\<lambda>i. the (director_id2name_dict i))
                     (sorted_list_of_set
                        {x \<in> set ds. \<forall>y. count_list ds y \<le> count_list ds x}))))
             (groupby crew_key (crew_exploded clean_title_basics_df title_crew_df))"
    using get_crew_data_by_group_top_directors [OF assms]
    by (simp only: Let_def mode_most_frequent_sorted)
next
  assume "mset clean_title_basics_df' = mset clean_title_basics_df \<and>
          mset title_crew_df' = mset title_crew_df"
  then have "get_crew_data_by_group clean_title_basics_df' title_crew_df' director_id2name_dict =
             get_crew_data_by_group clean_title_basics_df title_crew_df director_id2name_dict"
    by (intro get_crew_data_by_group_mset) simp_all
  with assms show "get_crew_data_by_group clean_title_basics_df' title_crew_df'
                     director_id2name_dict = Inr (n_directors, top_directors, n_writers)"
    by simp
qed

theorem tied_top_directors_in_ascending_id_order_witness:
  "get_crew_data_by_group
     [\<lparr>c_tconst = ''t1'', c_startYear = 2015, c_genres = Some ''Drama'',
       c_runtimeMinutes = Some 100\<rparr>,
      \<lparr>c_tconst = ''t2'', c_startYear = 2015, c_genres = Some ''Drama'',
       c_runtimeMinutes = Some 90\<rparr>,
      \<lparr>c_tconst = ''t3'', c_startYear = 2015, c_genres = Some ''Drama'',
       c_runtimeMinutes = None\<rparr>]
     [\<lparr>w_tconst = ''t1'', directors = Some ''nm2,nm3'', writers = Some ''nm7''\<rparr>,
      \<lparr>w_tconst = ''t2'', directors = Some ''nm1,nm2'', writers = None\<rparr>,
      \<lparr>w_tconst = ''t3'', directors = Some ''nm1'', writers = None\<rparr>]
     [''nm1'' \<mapsto> ''Alice'', ''nm2'' \<mapsto> ''Bob'', ''nm3'' \<mapsto> ''Carol''] =
     Inr ([((2015, ''Drama''), 3)], [((2015, ''Drama''), ''Alice; Bob'')],
          [((2015, ''Drama''), 1)]) \<and>
   get_crew_data_by_group
     (rev [\<lparr>c_tconst = ''t1'', c_startYear = 2015, c_genres = Some ''Drama'',
       c_runtimeMinutes = Some 100\<rparr>,
      \<lparr>c_tconst = ''t2'', c_startYear = 2015, c_genres = Some ''Drama'',
       c_runtimeMinutes = Some 90\<rparr>,
      \<lparr>c_tconst = ''t3'', c_startYear = 2015, c_genres = Some ''Drama'',
       c_runtimeMinutes = None\<rparr>])
     (rev [\<lparr>w_tconst = ''t1'', directors = Some ''nm2,nm3'', writers = Some ''nm7''\<rparr>,
      \<lparr>w_tconst = ''t2'', directors = Some ''nm1,nm2'', writers = None\<rparr>,
      \<lparr>w_tconst = ''t3'', directors = Some ''nm1'', writers = None\<rparr>])
     [''nm1'' \<mapsto> ''Alice'', ''nm2'' \<mapsto> ''Bob'', ''nm3'' \<mapsto> ''Carol''] =
     Inr ([((2015, ''Drama''), 3)], [((2015, ''Drama''), ''Alice; Bob'')],
          [((2015, ''Drama''), 1)])"
proof -
  let ?cs = "[\<lparr>c_tconst = ''t1'', c_startYear = 2015, c_genres = Some ''Drama'',
       c_runtimeMinutes = Some 100\<rparr>,
      \<lparr>c_tconst = ''t2'', c_startYear = 2015, c_genres = Some ''Drama'',
       c_runtimeMinutes = Some 90\<rparr>,
      \<lparr>c_tconst = ''t3'', c_startYear = 2015, c_genres = Some ''Drama'',
       c_runtimeMinutes = None\<rparr>]"
  let ?ws = "[\<lparr>w_tconst = ''t1'', directors = Some ''nm2,nm3'', writers = Some ''nm7''\<rparr>,
      \<lparr>w_tconst = ''t2'', directors = Some ''nm1,nm2'', writers = None\<rparr>,
      \<lparr>w_tconst = ''t3'', directors = Some ''nm1'', writers = None\<rparr>]"
  let ?d = "[''nm1'' \<mapsto> ''Alice'', ''nm2'' \<mapsto> ''Bob'', ''nm3'' \<mapsto> ''Carol'']"
  have h: "get_crew_data_by_group ?cs ?ws ?d =
     Inr ([((2015, ''Drama''), 3)], [((2015, ''Drama''), ''Alice; Bob'')],
          [((2015, ''Drama''), 1)])"
    by code_simp
  have p: "mset (rev ?cs) = mset ?cs \<and> mset (rev ?ws) = mset ?ws"
    by (simp only: mset_rev simp_thms)
  from tied_top_directors_in_ascending_id_order [OF h, of "rev ?cs" "rev ?ws"] p
  have "get_crew_data_by_group (rev ?cs) (rev ?ws) ?d =
     Inr ([((2015, ''Drama''), 3)], [((2015, ''Drama''), ''Alice; Bob'')],
          [((2015, ''Drama''), 1)])"
    by blast
  with h show ?thesis
    by blast
qed

end
